theory Spec2Isabelle
  imports Main "HOL-Library.AList"
begin

section \<open>pyccl/base/ccl\_object.py: values, errors and objects\<close>

text \<open>
  The exceptions the module raises or lets through.  \<open>TypeError\<close> is what the
  builtins \<open>repr\<close>, \<open>hash\<close> and \<open>Signature.bind\<close> raise, \<open>KeyError\<close> what a
  dictionary subscript raises, \<open>IndexError\<close> what \<open>names[0]\<close> raises on an empty list,
  \<open>RecursionError\<close> what an unbounded recursion ends in.
\<close>

datatype error = AttributeError | NameError | TypeError | KeyError | IndexError
  | NotImplementedError | RecursionError

text \<open>
  Python values as far as the module looks at them: strings and integers (the cached
  representation and the cached hash), \<open>None\<close>, and a reference to an object on the heap.
\<close>

datatype pyval = PNone | PInt int | PStr string | PRef nat

type_synonym cname = string

subsection \<open>class ObjectLock\<close>

text \<open>
  The fields \<open>_locked\<close> and \<open>_lock_id\<close> (an identifier cannot start with an underscore
  here, hence the prefix \<open>u\<close>).  The class attributes give the state of a new lock.
\<close>

record ObjectLock =
  u_locked :: bool
  u_lock_id :: "nat option"

definition ObjectLock_new :: ObjectLock where
  "ObjectLock_new = \<lparr>u_locked = False, u_lock_id = None\<rparr>"

definition locked :: "ObjectLock \<Rightarrow> bool" where
  "locked ol = u_locked ol"

definition active :: "ObjectLock \<Rightarrow> bool" where
  "active ol = (u_lock_id ol \<noteq> None)"

definition lock :: "ObjectLock \<Rightarrow> ObjectLock" where
  "lock ol = ol\<lparr>u_locked := True, u_lock_id := None\<rparr>"

definition unlock :: "ObjectLock \<Rightarrow> nat option \<Rightarrow> ObjectLock" where
  "unlock ol manager_id =
     (let ol1 = ol\<lparr>u_locked := False\<rparr>
      in case manager_id of None \<Rightarrow> ol1 | Some m \<Rightarrow> ol1\<lparr>u_lock_id := Some m\<rparr>)"

subsection \<open>Instances of CCLObject and the heap\<close>

text \<open>
  An instance: its class, its identity (\<open>id(self)\<close>), the \<open>ObjectLock\<close> that
  \<open>CCLObject.__new__\<close> installs, and its \<open>__dict__\<close>.  The dictionary holds the ordinary
  fields and the two slots \<open>_repr\<close> and \<open>_hash\<close> that \<open>functools.cached_property\<close>
  fills.  The lock is kept in a field of its own: the model does not cover a program that
  rebinds \<open>_object_lock\<close>.
\<close>

record ccl_object =
  cls :: cname
  ident :: nat
  object_lock :: ObjectLock
  dict :: "string \<rightharpoonup> pyval"

type_synonym heap = "nat \<rightharpoonup> ccl_object"

text \<open>\<open>CCLObject.__new__\<close>: a new instance carries a new, unlocked \<open>ObjectLock\<close>.\<close>

definition CCLObject_new :: "cname \<Rightarrow> nat \<Rightarrow> ccl_object" where
  "CCLObject_new c i = \<lparr>cls = c, ident = i, object_lock = ObjectLock_new, dict = Map.empty\<rparr>"

text \<open>\<open>CCLObject.__setattr__\<close>: raises on a locked instance, writes the dictionary otherwise.\<close>

definition setattr :: "ccl_object \<Rightarrow> string \<Rightarrow> pyval \<Rightarrow> error + ccl_object" where
  "setattr self name v =
     (if locked (object_lock self) then Inl AttributeError
      else Inr (self\<lparr>dict := (dict self)(name \<mapsto> v)\<rparr>))"

text \<open>
  \<open>delattr\<close> on an instance (\<open>CCLObject\<close> does not override \<open>__delattr__\<close>, and a
  \<open>cached_property\<close> is no data descriptor): removes the key, or raises when it is absent.
\<close>

definition delattr :: "ccl_object \<Rightarrow> string \<Rightarrow> error + ccl_object" where
  "delattr self name =
     (case dict self name of
        None \<Rightarrow> Inl AttributeError
      | Some _ \<Rightarrow> Inr (self\<lparr>dict := (dict self)(name := None)\<rparr>))"

subsection \<open>class UnlockInstance\<close>

text \<open>
  The context manager: the value it was given, \<open>mutate\<close>, its own identity \<open>id(self)\<close>
  and \<open>check_instance\<close>.  Its \<open>object_lock\<close> is the lock of the heap object that
  \<open>instance\<close> refers to.  Its \<open>thread_lock\<close> is a new \<open>RLock\<close> of its own; within a
  single thread acquiring it never blocks, so the sequential operations below leave it
  out (the section on threads puts it back).
\<close>

record UnlockInstance =
  u_instance :: pyval
  u_mutate :: bool
  u_id :: nat
  check_instance :: bool

definition isinstance_CCLObject :: "heap \<Rightarrow> pyval \<Rightarrow> bool" where
  "isinstance_CCLObject h v = (case v of PRef a \<Rightarrow> h a \<noteq> None | _ \<Rightarrow> False)"

definition UnlockInstance_init :: "heap \<Rightarrow> pyval \<Rightarrow> bool \<Rightarrow> nat \<Rightarrow> UnlockInstance" where
  "UnlockInstance_init h inst mutate new_id =
     \<lparr>u_instance = inst, u_mutate = mutate, u_id = new_id,
      check_instance = isinstance_CCLObject h inst\<rparr>"

text \<open>\<open>__enter__\<close> on the instance the manager refers to.\<close>

definition enter_instance :: "UnlockInstance \<Rightarrow> ccl_object \<Rightarrow> ccl_object" where
  "enter_instance U x =
     (if \<not> check_instance U then x
      else if active (object_lock x) then x
      else x\<lparr>object_lock := unlock (object_lock x) (Some (u_id U))\<rparr>)"

text \<open>
  The \<open>try\<close> block of \<open>__exit__\<close>: \<open>_repr\<close> is deleted first, and an \<open>AttributeError\<close>
  from either \<open>delattr\<close> leaves the block.
\<close>

definition reset_repr :: "ccl_object \<Rightarrow> ccl_object" where
  "reset_repr x =
     (case delattr x ''_repr'' of
        Inl _ \<Rightarrow> x
      | Inr x1 \<Rightarrow> (case delattr x1 ''_hash'' of Inl _ \<Rightarrow> x1 | Inr x2 \<Rightarrow> x2))"

definition exit_instance :: "UnlockInstance \<Rightarrow> ccl_object \<Rightarrow> ccl_object" where
  "exit_instance U x =
     (if \<not> check_instance U then x
      else if Some (u_id U) \<noteq> u_lock_id (object_lock x) then x
      else (let x1 = (if u_mutate U then reset_repr x else x)
            in x1\<lparr>object_lock := lock (object_lock x1)\<rparr>))"

text \<open>The same two methods on the heap, through the reference the manager holds.\<close>

definition on_target :: "UnlockInstance \<Rightarrow> (ccl_object \<Rightarrow> ccl_object) \<Rightarrow> heap \<Rightarrow> heap" where
  "on_target U f h =
     (case u_instance U of
        PRef a \<Rightarrow> (case h a of None \<Rightarrow> h | Some x \<Rightarrow> h(a \<mapsto> f x))
      | _ \<Rightarrow> h)"

definition UnlockInstance_enter :: "UnlockInstance \<Rightarrow> heap \<Rightarrow> heap" where
  "UnlockInstance_enter U h = on_target U (enter_instance U) h"

definition UnlockInstance_exit :: "UnlockInstance \<Rightarrow> heap \<Rightarrow> heap" where
  "UnlockInstance_exit U h = on_target U (exit_instance U) h"

subsection \<open>Builtins and code outside the module\<close>

text \<open>
  What the module calls and does not define is a parameter of the model:
  \<^item> \<open>str_hash\<close>: the builtin \<open>hash\<close> on a string;
  \<^item> \<open>object_repr\<close>: \<open>object.__repr__\<close>, a function of the class and the identity of
    the object;
  \<^item> \<open>build_string_from_attrs\<close>: the function of \<open>pyccl/base/repr_.py\<close> (not among the
    sources), given the attribute list the class declares;
  \<^item> \<open>user_repr\<close>: the bodies of the \<open>__repr__\<close> methods that subclasses write, by number;
  \<^item> \<open>getattr_eq\<close>: \<open>attrgetter(attr)(self) == attrgetter(attr)(other)\<close> for one
    (possibly dotted) attribute name.
\<close>

record env =
  str_hash :: "string \<Rightarrow> int"
  object_repr :: "cname \<Rightarrow> nat \<Rightarrow> string"
  build_string_from_attrs :: "string list \<Rightarrow> ccl_object \<Rightarrow> error + string"
  user_repr :: "nat \<Rightarrow> ccl_object \<Rightarrow> error + string"
  getattr_eq :: "string \<Rightarrow> ccl_object \<Rightarrow> ccl_object \<Rightarrow> error + bool"

subsection \<open>Functions, signatures and classes\<close>

text \<open>
  A function: its name, its signature and its body.  A parameter is positional-or-keyword
  or keyword-only and may have a default; the model has no \<open>*args\<close>, \<open>**kwargs\<close> or
  positional-only parameters.  The body is a state transformer of the heap that returns
  a value or raises.
\<close>

datatype kind = POSITIONAL_OR_KEYWORD | KEYWORD_ONLY

record param =
  p_name :: string
  p_kind :: kind
  p_default :: "pyval option"

type_synonym kwargs = "(string \<times> pyval) list"

record func =
  f_name :: string
  f_signature :: "param list"
  f_body :: "pyval list \<Rightarrow> kwargs \<Rightarrow> heap \<Rightarrow> (error + pyval) \<times> heap"

text \<open>
  What a method slot of a class can hold: a plain function, the \<open>wrapper\<close> closure of
  \<open>unlock_instance\<close> (over \<open>func\<close>, \<open>name\<close> and \<open>mutate\<close>), or the method
  \<open>CCLObject.update_parameters\<close>.  \<open>unlock_instance\<close> returns either such a closure or,
  called with parentheses, a \<open>functools.partial\<close> of itself over \<open>name\<close> and \<open>mutate\<close>.
\<close>

datatype callable = Func func | Wrapper func string bool | CCLObject_update_parameters

datatype unlock_result = Partial "string option" bool | Decorated callable

text \<open>
  The functions that can stand in a \<open>__repr__\<close> slot or under the \<open>cached_property\<close> of
  a \<open>_repr\<close> slot: \<open>object.__repr__\<close>, \<open>CCLObject.__ccl_repr__\<close>,
  \<open>CCLAutoreprObject.__repr__\<close> and the \<open>__repr__\<close> a subclass writes.
\<close>

datatype repr_fn = Object_repr | Ccl_repr | CCLAutoreprObject_repr | User_repr nat

text \<open>
  A class: its method resolution order (the class itself first, \<open>object\<close> left out) and
  the entries of its own namespace \<open>vars(cls)\<close> that the module reads or writes.
\<close>

record pyclass =
  mro :: "cname list"
  v_repr :: "repr_fn option"
  v_cached_repr :: "repr_fn option"
  v_repr_attrs :: "string list option"
  v_eq_attrs :: "string list option"
  v_init :: "callable option"
  v_update_parameters :: "callable option"

text \<open>
  The state of the process outside the heap: the classes, and the class attributes
  \<open>_enabled\<close> and \<open>_classes\<close> of \<open>FancyRepr\<close> (a dictionary, in insertion order).
\<close>

record world =
  classes :: "cname \<rightharpoonup> pyclass"
  fr_enabled :: bool
  fr_classes :: "(cname \<times> repr_fn) list"

text \<open>Attribute lookup on a type: the first class of the order whose namespace has it.\<close>

fun lookup_mro :: "(cname \<rightharpoonup> pyclass) \<Rightarrow> (pyclass \<Rightarrow> 'a option) \<Rightarrow> cname list \<Rightarrow> 'a option" where
  "lookup_mro ct sel [] = None"
| "lookup_mro ct sel (c # cs) =
     (case ct c of
        None \<Rightarrow> lookup_mro ct sel cs
      | Some k \<Rightarrow> (case sel k of None \<Rightarrow> lookup_mro ct sel cs | Some v \<Rightarrow> Some v))"

definition type_lookup :: "world \<Rightarrow> cname \<Rightarrow> (pyclass \<Rightarrow> 'a option) \<Rightarrow> 'a option" where
  "type_lookup w c sel =
     (case classes w c of None \<Rightarrow> None | Some k \<Rightarrow> lookup_mro (classes w) sel (mro k))"

text \<open>Assignment to a class attribute (\<open>cl.attr = value\<close>) of an existing class.\<close>

definition upd_class :: "world \<Rightarrow> cname \<Rightarrow> (pyclass \<Rightarrow> pyclass) \<Rightarrow> world" where
  "upd_class w cl f =
     (case classes w cl of None \<Rightarrow> w | Some k \<Rightarrow> w\<lparr>classes := (classes w)(cl \<mapsto> f k)\<rparr>)"

subsection \<open>class FancyRepr\<close>

text \<open>\<open>cl.__repr__\<close> as \<open>FancyRepr.add\<close> reads it: through the order, down to \<open>object\<close>.\<close>

definition class_repr :: "world \<Rightarrow> cname \<Rightarrow> repr_fn" where
  "class_repr w cl = (case type_lookup w cl v_repr of None \<Rightarrow> Object_repr | Some f \<Rightarrow> f)"

definition FancyRepr_add :: "world \<Rightarrow> cname \<Rightarrow> world" where
  "FancyRepr_add w cl = w\<lparr>fr_classes := AList.update cl (class_repr w cl) (fr_classes w)\<rparr>"

definition FancyRepr_bind_and_replace :: "world \<Rightarrow> cname \<Rightarrow> repr_fn \<Rightarrow> world" where
  "FancyRepr_bind_and_replace w cl method =
     upd_class w cl (\<lambda>k. k\<lparr>v_cached_repr := Some method, v_repr := Some Ccl_repr\<rparr>)"

definition FancyRepr_enable :: "world \<Rightarrow> world" where
  "FancyRepr_enable w =
     (fold (\<lambda>(cl, method) w'. FancyRepr_bind_and_replace w' cl method) (fr_classes w) w)
       \<lparr>fr_enabled := True\<rparr>"

definition FancyRepr_disable :: "world \<Rightarrow> world" where
  "FancyRepr_disable w =
     (fold (\<lambda>cl w'. upd_class w' cl (\<lambda>k. k\<lparr>v_repr := Some Object_repr\<rparr>))
        (map fst (fr_classes w)) w)
       \<lparr>fr_enabled := False\<rparr>"

subsection \<open>class CCLObject: representation, hash and equality\<close>

text \<open>
  The body of a representation function other than \<open>__ccl_repr__\<close>.
  \<open>CCLAutoreprObject.__repr__\<close> asks the class for \<open>__repr_attrs__\<close>.
\<close>

definition repr_body :: "env \<Rightarrow> world \<Rightarrow> repr_fn \<Rightarrow> ccl_object \<Rightarrow> error + string" where
  "repr_body E w f self =
     (case f of
        Object_repr \<Rightarrow> Inr (object_repr E (cls self) (ident self))
      | Ccl_repr \<Rightarrow> Inl RecursionError
      | CCLAutoreprObject_repr \<Rightarrow>
          (case type_lookup w (cls self) v_repr_attrs of
             Some attrs \<Rightarrow> build_string_from_attrs E attrs self
           | None \<Rightarrow> Inr (object_repr E (cls self) (ident self)))
      | User_repr n \<Rightarrow> user_repr E n self)"

text \<open>
  \<open>self._repr\<close>: the dictionary of the instance first, then the \<open>cached_property\<close> of
  the class, which stores what it computed.  A \<open>cached_property\<close> over \<open>__ccl_repr__\<close>
  would read \<open>self._repr\<close> again without end.
\<close>

definition getattr_repr :: "env \<Rightarrow> world \<Rightarrow> ccl_object \<Rightarrow> (error + pyval) \<times> ccl_object" where
  "getattr_repr E w self =
     (case dict self ''_repr'' of
        Some v \<Rightarrow> (Inr v, self)
      | None \<Rightarrow>
          (case type_lookup w (cls self) v_cached_repr of
             None \<Rightarrow> (Inl AttributeError, self)
           | Some f \<Rightarrow>
               (case repr_body E w f self of
                  Inl e \<Rightarrow> (Inl e, self)
                | Inr s \<Rightarrow> (Inr (PStr s), self\<lparr>dict := (dict self)(''_repr'' \<mapsto> PStr s)\<rparr>))))"

text \<open>
  The builtin \<open>repr(self)\<close>: the \<open>__repr__\<close> of the type; the result must be a string.
\<close>

definition py_repr :: "env \<Rightarrow> world \<Rightarrow> ccl_object \<Rightarrow> (error + string) \<times> ccl_object" where
  "py_repr E w self =
     (case class_repr w (cls self) of
        Ccl_repr \<Rightarrow>
          (case getattr_repr E w self of
             (Inl e, self1) \<Rightarrow> (Inl e, self1)
           | (Inr (PStr s), self1) \<Rightarrow> (Inr s, self1)
           | (Inr _, self1) \<Rightarrow> (Inl TypeError, self1))
      | f \<Rightarrow> (repr_body E w f self, self))"

text \<open>\<open>self._hash\<close>, the \<open>cached_property\<close> of \<open>CCLObject\<close>.\<close>

definition getattr_hash :: "env \<Rightarrow> world \<Rightarrow> ccl_object \<Rightarrow> (error + pyval) \<times> ccl_object" where
  "getattr_hash E w self =
     (case dict self ''_hash'' of
        Some v \<Rightarrow> (Inr v, self)
      | None \<Rightarrow>
          (case py_repr E w self of
             (Inl e, self1) \<Rightarrow> (Inl e, self1)
           | (Inr s, self1) \<Rightarrow>
               (Inr (PInt (str_hash E s)),
                self1\<lparr>dict := (dict self1)(''_hash'' \<mapsto> PInt (str_hash E s))\<rparr>)))"

text \<open>
  The builtin \<open>hash(self)\<close>: \<open>__hash__\<close> must return an integer.  The builtin hands on
  a result that is itself a hash value (it fits the machine word and is not \<open>-1\<close>), as
  every value of \<open>str_hash\<close> is, and so every \<open>_hash\<close> that the \<open>cached_property\<close>
  has stored.  The model is for such cached values: it does not follow the builtin on
  another integer put under \<open>_hash\<close> by hand (\<open>-1\<close> becomes \<open>-2\<close>, a wider integer is
  reduced).
\<close>

definition py_hash :: "env \<Rightarrow> world \<Rightarrow> ccl_object \<Rightarrow> (error + int) \<times> ccl_object" where
  "py_hash E w self =
     (case getattr_hash E w self of
        (Inl e, self1) \<Rightarrow> (Inl e, self1)
      | (Inr (PInt n), self1) \<Rightarrow> (Inr n, self1)
      | (Inr _, self1) \<Rightarrow> (Inl TypeError, self1))"

text \<open>
  The list comprehension of \<open>__eq__\<close> over \<open>__eq_attrs__\<close>: every comparison is
  evaluated, in order, before \<open>all\<close> sees the list.
\<close>

fun eq_attrs_list :: "env \<Rightarrow> string list \<Rightarrow> ccl_object \<Rightarrow> ccl_object \<Rightarrow> error + bool list" where
  "eq_attrs_list E [] self other = Inr []"
| "eq_attrs_list E (a # as) self other =
     (case getattr_eq E a self other of
        Inl e \<Rightarrow> Inl e
      | Inr b \<Rightarrow> (case eq_attrs_list E as self other of Inl e \<Rightarrow> Inl e | Inr bs \<Rightarrow> Inr (b # bs)))"

text \<open>
  \<open>CCLObject.__eq__\<close>.  \<open>__eq_attrs__\<close> is looked up on the class (the model keeps no
  such key in an instance dictionary).  Both instances come back, since \<open>repr\<close> may have
  filled their caches.
\<close>

definition py_eq :: "env \<Rightarrow> world \<Rightarrow> ccl_object \<Rightarrow> ccl_object \<Rightarrow> (error + bool) \<times> ccl_object \<times> ccl_object" where
  "py_eq E w self other =
     (if cls self \<noteq> cls other then (Inr False, self, other)
      else
        (case type_lookup w (cls self) v_eq_attrs of
           Some attrs \<Rightarrow>
             (case eq_attrs_list E attrs self other of
                Inl e \<Rightarrow> (Inl e, self, other)
              | Inr bs \<Rightarrow> (Inr (list_all (\<lambda>b. b) bs), self, other))
         | None \<Rightarrow>
             (case py_repr E w self of
                (Inl e, self1) \<Rightarrow> (Inl e, self1, other)
              | (Inr s, self1) \<Rightarrow>
                  (case py_repr E w other of
                     (Inl e, other1) \<Rightarrow> (Inl e, self1, other1)
                   | (Inr t, other1) \<Rightarrow> (Inr (s = t), self1, other1)))))"

text \<open>
  The cached hash of an instance agrees with the representation now in force: there is
  none, or it is the hash of what \<open>repr\<close> returns.
\<close>

definition hash_coherent :: "env \<Rightarrow> world \<Rightarrow> ccl_object \<Rightarrow> bool" where
  "hash_coherent E w x =
     (case dict x ''_hash'' of
        None \<Rightarrow> True
      | Some v \<Rightarrow> (case fst (py_repr E w x) of Inl _ \<Rightarrow> False | Inr s \<Rightarrow> v = PInt (str_hash E s)))"

subsection \<open>The decorator unlock\_instance\<close>

text \<open>
  \<open>Signature.bind\<close> of the standard library, for the signatures of the model.
  Positional arguments fill the parameters in order; one too many, one that meets a
  keyword-only parameter, or one whose parameter is also given by keyword raises
  \<open>TypeError\<close>.  The other parameters take their value from \<open>kwargs\<close>; one that has
  neither a value nor a default raises, and one that has only a default gets no entry
  in \<open>arguments\<close>.  A keyword that names no parameter raises.
\<close>

fun bind_positional :: "param list \<Rightarrow> pyval list \<Rightarrow> kwargs \<Rightarrow> (string \<rightharpoonup> pyval)
    \<Rightarrow> error + (param list \<times> (string \<rightharpoonup> pyval))" where
  "bind_positional ps [] kw acc = Inr (ps, acc)"
| "bind_positional [] (a # as) kw acc = Inl TypeError"
| "bind_positional (p # ps) (a # as) kw acc =
     (if p_kind p = KEYWORD_ONLY then Inl TypeError
      else if map_of kw (p_name p) \<noteq> None then Inl TypeError
      else bind_positional ps as kw (acc(p_name p \<mapsto> a)))"

fun bind_keywords :: "param list \<Rightarrow> kwargs \<Rightarrow> (string \<rightharpoonup> pyval)
    \<Rightarrow> error + (kwargs \<times> (string \<rightharpoonup> pyval))" where
  "bind_keywords [] kw acc = Inr (kw, acc)"
| "bind_keywords (p # ps) kw acc =
     (case map_of kw (p_name p) of
        None \<Rightarrow> (if p_default p = None then Inl TypeError else bind_keywords ps kw acc)
      | Some v \<Rightarrow> bind_keywords ps (AList.delete (p_name p) kw) (acc(p_name p \<mapsto> v)))"

definition Signature_bind :: "param list \<Rightarrow> pyval list \<Rightarrow> kwargs \<Rightarrow> error + (string \<rightharpoonup> pyval)" where
  "Signature_bind sig args kw =
     (case bind_positional sig args kw Map.empty of
        Inl e \<Rightarrow> Inl e
      | Inr (rest, acc) \<Rightarrow>
          (case bind_keywords rest kw acc of
             Inl e \<Rightarrow> Inl e
           | Inr (kw1, acc1) \<Rightarrow> (if kw1 = [] then Inr acc1 else Inl TypeError)))"

text \<open>
  \<open>UnlockInstance.unlock_instance\<close>, up to the definition of \<open>wrapper\<close>: the names of
  the parameters, the default name, and the check of the name.
\<close>

definition unlock_instance :: "func option \<Rightarrow> string option \<Rightarrow> bool \<Rightarrow> error + unlock_result" where
  "unlock_instance func name mutate =
     (case func of
        None \<Rightarrow> Inr (Partial name mutate)
      | Some f \<Rightarrow>
          (let names = map p_name (f_signature f)
           in case (case name of
                      None \<Rightarrow> (case names of [] \<Rightarrow> Inl IndexError | n # _ \<Rightarrow> Inr n)
                    | Some n \<Rightarrow> Inr n) of
                Inl e \<Rightarrow> Inl e
              | Inr n \<Rightarrow>
                  (if n \<notin> set names then Inl NameError
                   else Inr (Decorated (Wrapper f n mutate)))))"

text \<open>Calling what \<open>unlock_instance(name=..., mutate=...)\<close> returned on a function.\<close>

definition decorate :: "error + unlock_result \<Rightarrow> func \<Rightarrow> error + unlock_result" where
  "decorate d f =
     (case d of
        Inl e \<Rightarrow> Inl e
      | Inr (Partial name mutate) \<Rightarrow> unlock_instance (Some f) name mutate
      | Inr (Decorated c) \<Rightarrow> Inl TypeError)"

text \<open>
  The closure \<open>wrapper\<close>: bind the arguments, look the named one up in
  \<open>bound.arguments\<close>, run the function inside a new \<open>UnlockInstance\<close> (\<open>new_id\<close> is the
  identity of that manager), and hand its result on.  \<open>__exit__\<close> returns \<open>None\<close>, so
  an exception of the function passes through after \<open>__exit__\<close> has run.
\<close>

definition wrapper :: "func \<Rightarrow> string \<Rightarrow> bool \<Rightarrow> nat \<Rightarrow> pyval list \<Rightarrow> kwargs \<Rightarrow> heap
    \<Rightarrow> (error + pyval) \<times> heap" where
  "wrapper f name mutate new_id args kw h =
     (case Signature_bind (f_signature f) args kw of
        Inl e \<Rightarrow> (Inl e, h)
      | Inr arguments \<Rightarrow>
          (case arguments name of
             None \<Rightarrow> (Inl KeyError, h)
           | Some target \<Rightarrow>
               (let U = UnlockInstance_init h target mutate new_id;
                    h1 = UnlockInstance_enter U h;
                    (r, h2) = f_body f args kw h1
                in (r, UnlockInstance_exit U h2))))"

text \<open>
  A call of a method slot.  \<open>CCLObject.update_parameters(self, **kwargs)\<close> raises
  \<open>NotImplementedError\<close> once its arguments fit: \<open>self\<close> is given exactly once, as
  the only positional argument or by keyword, and every other keyword goes to
  \<open>**kwargs\<close>.  Otherwise the call raises \<open>TypeError\<close>.
\<close>

fun call :: "callable \<Rightarrow> nat \<Rightarrow> pyval list \<Rightarrow> kwargs \<Rightarrow> heap \<Rightarrow> (error + pyval) \<times> heap" where
  "call (Func f) new_id args kw h = f_body f args kw h"
| "call (Wrapper f name mutate) new_id args kw h = wrapper f name mutate new_id args kw h"
| "call CCLObject_update_parameters new_id args kw h =
     (case args of
        [] \<Rightarrow> (if map_of kw ''self'' \<noteq> None then (Inl NotImplementedError, h)
               else (Inl TypeError, h))
      | [self] \<Rightarrow> (if map_of kw ''self'' \<noteq> None then (Inl TypeError, h)
                   else (Inl NotImplementedError, h))
      | _ \<Rightarrow> (Inl TypeError, h))"

text \<open>\<open>UnlockInstance.Funlock\<close> on the entry \<open>vars(cl).get(name)\<close>; the new entry.\<close>

definition Funlock :: "func option \<Rightarrow> bool \<Rightarrow> error + callable option" where
  "Funlock func mutate =
     (case func of
        None \<Rightarrow> Inr None
      | Some f \<Rightarrow>
          (case decorate (unlock_instance None None mutate) f of
             Inl e \<Rightarrow> Inl e
           | Inr (Decorated newfunc) \<Rightarrow> Inr (Some newfunc)
           | Inr (Partial _ _) \<Rightarrow> Inl TypeError))"

subsection \<open>Class creation and construction\<close>

text \<open>
  A class statement: the name, the method resolution order that Python computes from
  the bases, and the namespace of the class body.
\<close>

record classdef =
  d_name :: cname
  d_mro :: "cname list"
  d_repr :: "repr_fn option"
  d_repr_attrs :: "string list option"
  d_eq_attrs :: "string list option"
  d_init :: "func option"
  d_update_parameters :: "func option"

text \<open>The class object as \<open>type.__new__\<close> leaves it, before the hook runs.\<close>

definition new_class :: "world \<Rightarrow> classdef \<Rightarrow> world" where
  "new_class w d =
     w\<lparr>classes := (classes w)(d_name d \<mapsto>
        \<lparr>mro = d_mro d, v_repr = d_repr d, v_cached_repr = None,
         v_repr_attrs = d_repr_attrs d, v_eq_attrs = d_eq_attrs d,
         v_init = map_option Func (d_init d),
         v_update_parameters = map_option Func (d_update_parameters d)\<rparr>)\<rparr>"

text \<open>
  \<open>CCLObject.__init_subclass__\<close>, steps 2 and 3 (the stored signature of step 1 and the
  \<open>_fancy_repr\<close> descriptor are read by nothing modelled here).  A failing
  \<open>unlock_instance\<close> fails the class statement.
\<close>

definition init_subclass :: "world \<Rightarrow> classdef \<Rightarrow> error + world" where
  "init_subclass w d =
     (let c = d_name d;
          w1 = (if d_repr d \<noteq> None
                then (let w' = FancyRepr_add w c
                      in FancyRepr_bind_and_replace w' c (class_repr w' c))
                else w)
      in case Funlock (d_init d) False of
           Inl e \<Rightarrow> Inl e
         | Inr init' \<Rightarrow>
             (case Funlock (d_update_parameters d) True of
                Inl e \<Rightarrow> Inl e
              | Inr upd' \<Rightarrow>
                  Inr (upd_class w1 c (\<lambda>k. k\<lparr>v_init := init', v_update_parameters := upd'\<rparr>))))"

definition class_statement :: "world \<Rightarrow> classdef \<Rightarrow> error + world" where
  "class_statement w d = init_subclass (new_class w d) d"

text \<open>
  Calling a class: \<open>CCLObject.__new__\<close> allocates the instance at the new address \<open>a\<close>
  (its identity), then the \<open>__init__\<close> that the order finds runs on it; when no class of
  the order defines one, that is \<open>object.__init__\<close>, which does nothing.
\<close>

definition construct :: "world \<Rightarrow> cname \<Rightarrow> nat \<Rightarrow> nat \<Rightarrow> pyval list \<Rightarrow> kwargs \<Rightarrow> heap
    \<Rightarrow> (error + pyval) \<times> heap" where
  "construct w c a new_id args kw h =
     (let h0 = h(a \<mapsto> CCLObject_new c a)
      in case type_lookup w c v_init of
           None \<Rightarrow> (Inr (PRef a), h0)
         | Some init \<Rightarrow>
             (case call init new_id (PRef a # args) kw h0 of
                (Inl e, h1) \<Rightarrow> (Inl e, h1)
              | (Inr PNone, h1) \<Rightarrow> (Inr (PRef a), h1)
              | (Inr _, h1) \<Rightarrow> (Inl TypeError, h1)))"

text \<open>Attribute assignment \<open>obj.name = v\<close> on the heap.\<close>

definition heap_setattr :: "heap \<Rightarrow> nat \<Rightarrow> string \<Rightarrow> pyval \<Rightarrow> (error + pyval) \<times> heap" where
  "heap_setattr h a name v =
     (case h a of
        None \<Rightarrow> (Inl AttributeError, h)
      | Some x \<Rightarrow>
          (case setattr x name v of
             Inl e \<Rightarrow> (Inl e, h)
           | Inr x1 \<Rightarrow> (Inr PNone, h(a \<mapsto> x1))))"

text \<open>The module as imported: \<open>CCLObject\<close>, then the class statement of \<open>CCLAutoreprObject\<close>.\<close>

definition CCLObject_class :: pyclass where
  "CCLObject_class =
     \<lparr>mro = [''CCLObject''], v_repr = Some Ccl_repr, v_cached_repr = Some Object_repr,
      v_repr_attrs = None, v_eq_attrs = None, v_init = None,
      v_update_parameters = Some CCLObject_update_parameters\<rparr>"

definition world0 :: world where
  "world0 = \<lparr>classes = [''CCLObject'' \<mapsto> CCLObject_class], fr_enabled = True, fr_classes = []\<rparr>"

definition CCLAutoreprObject_decl :: classdef where
  "CCLAutoreprObject_decl =
     \<lparr>d_name = ''CCLAutoreprObject'', d_mro = [''CCLAutoreprObject'', ''CCLObject''],
      d_repr = Some CCLAutoreprObject_repr, d_repr_attrs = None, d_eq_attrs = None,
      d_init = None, d_update_parameters = None\<rparr>"

definition module_world :: world where
  "module_world = (case class_statement world0 CCLAutoreprObject_decl of Inr w \<Rightarrow> w | Inl _ \<Rightarrow> world0)"

subsection \<open>Threads entering and leaving managers on one instance\<close>

text \<open>
  \<open>__enter__\<close> and \<open>__exit__\<close> cut at their synchronisation points and at their accesses
  to the shared \<open>ObjectLock\<close>; a thread switch can fall between any two of them.  Every
  manager carries the \<open>RLock\<close> its own \<open>__init__\<close> created, so the locks are keyed by the
  identity of the manager; a held lock maps to the thread that holds it.  \<open>t_unlocked\<close>
  records whether the \<open>__enter__\<close> of the thread reached \<open>object_lock.unlock\<close>.
\<close>

datatype pc = Enter_acquire | Enter_check | Enter_unlock | Enter_release | In_body
  | Exit_check | Exit_acquire | Exit_reset | Exit_release | Finished

record thread =
  t_manager :: UnlockInstance
  t_pc :: pc
  t_unlocked :: bool

record tstate =
  shared :: ccl_object
  rlocks :: "nat \<rightharpoonup> nat"
  threads :: "nat \<rightharpoonup> thread"

text \<open>Acquiring an \<open>RLock\<close>: free, or held by the same thread; otherwise the thread waits.\<close>

definition rlock_acquire :: "(nat \<rightharpoonup> nat) \<Rightarrow> nat \<Rightarrow> nat \<Rightarrow> (nat \<rightharpoonup> nat) option" where
  "rlock_acquire rl l t =
     (case rl l of
        None \<Rightarrow> Some (rl(l \<mapsto> t))
      | Some holder \<Rightarrow> (if holder = t then Some rl else None))"

text \<open>One step of thread \<open>t\<close>; \<open>None\<close> when the thread does not exist, waits or is done.\<close>

definition step :: "tstate \<Rightarrow> nat \<Rightarrow> tstate option" where
  "step s t =
     (case threads s t of
        None \<Rightarrow> None
      | Some th \<Rightarrow>
          (let U = t_manager th;
               goto = (\<lambda>p. s\<lparr>threads := (threads s)(t \<mapsto> th\<lparr>t_pc := p\<rparr>)\<rparr>)
           in case t_pc th of
                Enter_acquire \<Rightarrow>
                  (if \<not> check_instance U then Some (goto In_body)
                   else (case rlock_acquire (rlocks s) (u_id U) t of
                           None \<Rightarrow> None
                         | Some rl \<Rightarrow> Some ((goto Enter_check)\<lparr>rlocks := rl\<rparr>)))
              | Enter_check \<Rightarrow>
                  (if active (object_lock (shared s)) then Some (goto Enter_release)
                   else Some (goto Enter_unlock))
              | Enter_unlock \<Rightarrow>
                  Some (s\<lparr>shared := (shared s)\<lparr>object_lock :=
                              unlock (object_lock (shared s)) (Some (u_id U))\<rparr>,
                          threads := (threads s)(t \<mapsto> th\<lparr>t_pc := Enter_release, t_unlocked := True\<rparr>)\<rparr>)
              | Enter_release \<Rightarrow> Some ((goto In_body)\<lparr>rlocks := (rlocks s)(u_id U := None)\<rparr>)
              | In_body \<Rightarrow> Some (goto Exit_check)
              | Exit_check \<Rightarrow>
                  (if \<not> check_instance U then Some (goto Finished)
                   else if Some (u_id U) \<noteq> u_lock_id (object_lock (shared s)) then Some (goto Finished)
                   else Some (goto Exit_acquire))
              | Exit_acquire \<Rightarrow>
                  (case rlock_acquire (rlocks s) (u_id U) t of
                     None \<Rightarrow> None
                   | Some rl \<Rightarrow> Some ((goto Exit_reset)\<lparr>rlocks := rl\<rparr>))
              | Exit_reset \<Rightarrow>
                  (let x1 = (if u_mutate U then reset_repr (shared s) else shared s)
                   in Some ((goto Exit_release)\<lparr>shared := x1\<lparr>object_lock := lock (object_lock x1)\<rparr>\<rparr>))
              | Exit_release \<Rightarrow> Some ((goto Finished)\<lparr>rlocks := (rlocks s)(u_id U := None)\<rparr>)
              | Finished \<Rightarrow> None))"

text \<open>A schedule: the threads that take a step, in order.\<close>

fun run :: "tstate \<Rightarrow> nat list \<Rightarrow> tstate option" where
  "run s [] = Some s"
| "run s (t # ts) = (case step s t of None \<Rightarrow> None | Some s1 \<Rightarrow> run s1 ts)"

text \<open>Two threads, each about to execute \<open>with UnlockInstance(x)\<close> on the same instance.\<close>

definition two_threads :: "ccl_object \<Rightarrow> UnlockInstance \<Rightarrow> UnlockInstance \<Rightarrow> tstate" where
  "two_threads x U1 U2 =
     \<lparr>shared = x, rlocks = Map.empty,
      threads = [1 \<mapsto> \<lparr>t_manager = U1, t_pc = Enter_acquire, t_unlocked = False\<rparr>,
                 2 \<mapsto> \<lparr>t_manager = U2, t_pc = Enter_acquire, t_unlocked = False\<rparr>]\<rparr>"

subsection \<open>A concrete environment and concrete classes\<close>

text \<open>
  Stand-ins for the builtins, for running the model on examples.  \<open>example_hash\<close> is a
  polynomial string hash; \<open>example_object_repr\<close> prints the class and the identity,
  as \<open>object.__repr__\<close> does.
\<close>

fun digits :: "nat \<Rightarrow> string" where
  "digits n =
     (if n < 10 then [''0123456789'' ! n]
      else digits (n div 10) @ [''0123456789'' ! (n mod 10)])"

definition example_hash :: "string \<Rightarrow> int" where
  "example_hash s = foldl (\<lambda>acc c. (31 * acc + of_char c) mod 2 ^ 61) 0 s"

definition example_object_repr :: "cname \<Rightarrow> nat \<Rightarrow> string" where
  "example_object_repr c i = ''<'' @ c @ '' object at '' @ digits i @ ''>''"

definition render :: "pyval \<Rightarrow> string" where
  "render v =
     (case v of
        PNone \<Rightarrow> ''None''
      | PInt n \<Rightarrow> (if n < 0 then ''-'' @ digits (nat (- n)) else digits (nat n))
      | PStr s \<Rightarrow> s
      | PRef a \<Rightarrow> ''@'' @ digits a)"

text \<open>
  Modelled from the spec: \<open>build_string_from_attrs\<close> of \<open>pyccl/base/repr_.py\<close>, which is
  not among the sources.  The name of the type is the header, and every listed
  attribute follows in declared order on a line \<open>name = value\<close>; a listed attribute that
  the instance does not have raises \<open>AttributeError\<close>.
\<close>

fun attr_lines :: "string list \<Rightarrow> ccl_object \<Rightarrow> error + string" where
  "attr_lines [] self = Inr []"
| "attr_lines (a # as) self =
     (case dict self a of
        None \<Rightarrow> Inl AttributeError
      | Some v \<Rightarrow>
          (case attr_lines as self of
             Inl e \<Rightarrow> Inl e
           | Inr rest \<Rightarrow> Inr ([CHR 0x0A] @ ''  '' @ a @ '' = '' @ render v @ rest)))"

definition example_build_string :: "string list \<Rightarrow> ccl_object \<Rightarrow> error + string" where
  "example_build_string attrs self =
     (case attr_lines attrs self of Inl e \<Rightarrow> Inl e | Inr body \<Rightarrow> Inr (cls self @ body))"

definition example_getattr_eq :: "string \<Rightarrow> ccl_object \<Rightarrow> ccl_object \<Rightarrow> error + bool" where
  "example_getattr_eq a self other =
     (case dict self a of
        None \<Rightarrow> Inl AttributeError
      | Some v \<Rightarrow> (case dict other a of None \<Rightarrow> Inl AttributeError | Some v' \<Rightarrow> Inr (v = v')))"

definition example_env :: env where
  "example_env =
     \<lparr>str_hash = example_hash, object_repr = example_object_repr,
      build_string_from_attrs = example_build_string,
      user_repr = (\<lambda>n self. Inr (''custom'' @ digits n)),
      getattr_eq = example_getattr_eq\<rparr>"

text \<open>
  \<open>class Point(CCLAutoreprObject)\<close> with \<open>__repr_attrs__ = ("a", "b")\<close> and
  \<open>def __init__(self, a, b): self.a = a; self.b = b\<close>.
\<close>

definition Point_init_body :: "pyval list \<Rightarrow> kwargs \<Rightarrow> heap \<Rightarrow> (error + pyval) \<times> heap" where
  "Point_init_body args kw h =
     (case Signature_bind
             [\<lparr>p_name = ''self'', p_kind = POSITIONAL_OR_KEYWORD, p_default = None\<rparr>,
              \<lparr>p_name = ''a'', p_kind = POSITIONAL_OR_KEYWORD, p_default = None\<rparr>,
              \<lparr>p_name = ''b'', p_kind = POSITIONAL_OR_KEYWORD, p_default = None\<rparr>] args kw of
        Inl e \<Rightarrow> (Inl e, h)
      | Inr arguments \<Rightarrow>
          (case (arguments ''self'', arguments ''a'', arguments ''b'') of
             (Some (PRef self), Some a, Some b) \<Rightarrow>
               (case heap_setattr h self ''a'' a of
                  (Inl e, h1) \<Rightarrow> (Inl e, h1)
                | (Inr _, h1) \<Rightarrow> heap_setattr h1 self ''b'' b)
           | _ \<Rightarrow> (Inl AttributeError, h)))"

definition Point_init :: func where
  "Point_init =
     \<lparr>f_name = ''__init__'',
      f_signature =
        [\<lparr>p_name = ''self'', p_kind = POSITIONAL_OR_KEYWORD, p_default = None\<rparr>,
         \<lparr>p_name = ''a'', p_kind = POSITIONAL_OR_KEYWORD, p_default = None\<rparr>,
         \<lparr>p_name = ''b'', p_kind = POSITIONAL_OR_KEYWORD, p_default = None\<rparr>],
      f_body = Point_init_body\<rparr>"

definition Point_decl :: classdef where
  "Point_decl =
     \<lparr>d_name = ''Point'', d_mro = [''Point'', ''CCLAutoreprObject'', ''CCLObject''],
      d_repr = None, d_repr_attrs = Some [''a'', ''b''], d_eq_attrs = None,
      d_init = Some Point_init, d_update_parameters = None\<rparr>"

text \<open>\<open>MyType = type("MyType", (CCLObject,), {"test": 0})\<close>, as in the tests of the module.\<close>

definition MyType_decl :: classdef where
  "MyType_decl =
     \<lparr>d_name = ''MyType'', d_mro = [''MyType'', ''CCLObject''],
      d_repr = None, d_repr_attrs = None, d_eq_attrs = None,
      d_init = None, d_update_parameters = None\<rparr>"

definition example_world :: world where
  "example_world =
     (case class_statement module_world Point_decl of
        Inl _ \<Rightarrow> module_world
      | Inr w \<Rightarrow> (case class_statement w MyType_decl of Inl _ \<Rightarrow> w | Inr w1 \<Rightarrow> w1))"

text \<open>
  \<open>def func2(item, pk, a0=0, *, a1=None, a2): return\<close>, the function that the tests of
  the module decorate.
\<close>

definition func2 :: func where
  "func2 =
     \<lparr>f_name = ''func2'',
      f_signature =
        [\<lparr>p_name = ''item'', p_kind = POSITIONAL_OR_KEYWORD, p_default = None\<rparr>,
         \<lparr>p_name = ''pk'', p_kind = POSITIONAL_OR_KEYWORD, p_default = None\<rparr>,
         \<lparr>p_name = ''a0'', p_kind = POSITIONAL_OR_KEYWORD, p_default = Some (PInt 0)\<rparr>,
         \<lparr>p_name = ''a1'', p_kind = KEYWORD_ONLY, p_default = Some PNone\<rparr>,
         \<lparr>p_name = ''a2'', p_kind = KEYWORD_ONLY, p_default = None\<rparr>],
      f_body = (\<lambda>args kw h. (Inr PNone, h))\<rparr>"

subsection \<open>Runs of the module used below\<close>

text \<open>The instance that \<open>Point(x, y)\<close> returns at address \<open>a\<close>.\<close>

definition Point_object :: "nat \<Rightarrow> pyval \<Rightarrow> pyval \<Rightarrow> ccl_object" where
  "Point_object a x y =
     \<lparr>cls = ''Point'', ident = a, object_lock = \<lparr>u_locked = True, u_lock_id = None\<rparr>,
      dict = [''a'' \<mapsto> x, ''b'' \<mapsto> y]\<rparr>"

text \<open>
  \<open>p = Point(1, 2)\<close>; then \<open>with UnlockInstance(p):\<close> (manager 7), and inside it
  \<open>with UnlockInstance(p):\<close> again (manager 8).
\<close>

definition Point_heap :: heap where
  "Point_heap = snd (construct example_world ''Point'' 1 100 [PInt 1, PInt 2] [] Map.empty)"

definition outer_manager :: UnlockInstance where
  "outer_manager = UnlockInstance_init Point_heap (PRef 1) True 7"

definition entered_heap :: heap where
  "entered_heap = UnlockInstance_enter outer_manager Point_heap"

definition inner_manager :: UnlockInstance where
  "inner_manager = UnlockInstance_init entered_heap (PRef 1) True 8"

text \<open>\<open>m = MyType()\<close>.\<close>

definition MyType_heap :: heap where
  "MyType_heap = snd (construct example_world ''MyType'' 3 102 [] [] Map.empty)"

text \<open>
  \<open>FancyRepr.disable(); p = Point(1, 2); hash(p)\<close>, then
  \<open>with UnlockInstance(p): p.a = 5\<close> (manager 7, \<open>mutate\<close> at its default \<open>True\<close>).
\<close>

definition disabled_world :: world where
  "disabled_world = FancyRepr_disable example_world"

definition hashed_heap :: heap where
  "hashed_heap =
     (let h0 = snd (construct disabled_world ''Point'' 1 100 [PInt 1, PInt 2] [] Map.empty)
      in case h0 1 of None \<Rightarrow> h0 | Some x \<Rightarrow> h0(1 \<mapsto> snd (py_hash example_env disabled_world x)))"

definition mutating_manager :: UnlockInstance where
  "mutating_manager = UnlockInstance_init hashed_heap (PRef 1) True 7"

definition mutated_heap :: heap where
  "mutated_heap =
     UnlockInstance_exit mutating_manager
       (snd (heap_setattr (UnlockInstance_enter mutating_manager hashed_heap) 1 ''a'' (PInt 5)))"

text \<open>
  \<open>p = Point(1, 2); hash(p)\<close> and \<open>q = Point(1, 2); hash(q)\<close> with the representations
  enabled.
\<close>

definition hashed_Point :: "nat \<Rightarrow> ccl_object" where
  "hashed_Point a = snd (py_hash example_env example_world (Point_object a (PInt 1) (PInt 2)))"

text \<open>
  \<open>def set_a(self, value): self.a = value\<close>, a function that writes a field of its first
  argument.
\<close>

definition set_a_body :: "pyval list \<Rightarrow> kwargs \<Rightarrow> heap \<Rightarrow> (error + pyval) \<times> heap" where
  "set_a_body args kw h =
     (case Signature_bind
             [\<lparr>p_name = ''self'', p_kind = POSITIONAL_OR_KEYWORD, p_default = None\<rparr>,
              \<lparr>p_name = ''value'', p_kind = POSITIONAL_OR_KEYWORD, p_default = None\<rparr>] args kw of
        Inl e \<Rightarrow> (Inl e, h)
      | Inr arguments \<Rightarrow>
          (case (arguments ''self'', arguments ''value'') of
             (Some (PRef self), Some v) \<Rightarrow> heap_setattr h self ''a'' v
           | _ \<Rightarrow> (Inl AttributeError, h)))"

definition set_a :: func where
  "set_a =
     \<lparr>f_name = ''set_a'',
      f_signature =
        [\<lparr>p_name = ''self'', p_kind = POSITIONAL_OR_KEYWORD, p_default = None\<rparr>,
         \<lparr>p_name = ''value'', p_kind = POSITIONAL_OR_KEYWORD, p_default = None\<rparr>],
      f_body = set_a_body\<rparr>"

text \<open>
  The manager of a thread that executes \<open>with UnlockInstance(p):\<close> on the point at
  address 1; \<open>n\<close> is the identity of the manager.
\<close>

definition thread_manager :: "nat \<Rightarrow> UnlockInstance" where
  "thread_manager n = UnlockInstance_init Point_heap (PRef 1) True n"

text \<open>What the statements below observe of a state of the threads.\<close>

definition observe :: "tstate option \<Rightarrow> (bool \<times> nat option \<times> (pc \<times> bool) option list) option" where
  "observe r =
     map_option (\<lambda>s. (locked (object_lock (shared s)), u_lock_id (object_lock (shared s)),
        map (\<lambda>t. map_option (\<lambda>th. (t_pc th, t_unlocked th)) (threads s t)) [1, 2])) r"

section \<open>Properties\<close>

subsection \<open>The concrete classes, evaluated\<close>

lemma module_world_eq:
  "module_world = \<lparr>classes = [''CCLObject'' \<mapsto> CCLObject_class,
      ''CCLAutoreprObject'' \<mapsto> \<lparr>mro = [''CCLAutoreprObject'', ''CCLObject''],
         v_repr = Some Ccl_repr, v_cached_repr = Some CCLAutoreprObject_repr,
         v_repr_attrs = None, v_eq_attrs = None, v_init = None, v_update_parameters = None\<rparr>],
     fr_enabled = True, fr_classes = [(''CCLAutoreprObject'', CCLAutoreprObject_repr)]\<rparr>"
  by (simp add: module_world_def class_statement_def init_subclass_def new_class_def
      CCLAutoreprObject_decl_def world0_def CCLObject_class_def FancyRepr_add_def
      FancyRepr_bind_and_replace_def class_repr_def type_lookup_def upd_class_def
      Funlock_def Let_def)

lemma example_world_eq:
  "example_world = \<lparr>classes = [''CCLObject'' \<mapsto> CCLObject_class,
      ''CCLAutoreprObject'' \<mapsto> \<lparr>mro = [''CCLAutoreprObject'', ''CCLObject''],
         v_repr = Some Ccl_repr, v_cached_repr = Some CCLAutoreprObject_repr,
         v_repr_attrs = None, v_eq_attrs = None, v_init = None, v_update_parameters = None\<rparr>,
      ''Point'' \<mapsto> \<lparr>mro = [''Point'', ''CCLAutoreprObject'', ''CCLObject''], v_repr = None,
         v_cached_repr = None, v_repr_attrs = Some [''a'', ''b''], v_eq_attrs = None,
         v_init = Some (Wrapper Point_init ''self'' False), v_update_parameters = None\<rparr>,
      ''MyType'' \<mapsto> \<lparr>mro = [''MyType'', ''CCLObject''], v_repr = None,
         v_cached_repr = None, v_repr_attrs = None, v_eq_attrs = None,
         v_init = None, v_update_parameters = None\<rparr>],
     fr_enabled = True, fr_classes = [(''CCLAutoreprObject'', CCLAutoreprObject_repr)]\<rparr>"
  by (simp add: example_world_def module_world_eq class_statement_def init_subclass_def
      new_class_def Point_decl_def MyType_decl_def upd_class_def Funlock_def decorate_def
      unlock_instance_def Point_init_def Let_def)

lemma disabled_world_eq:
  "disabled_world = \<lparr>classes = [''CCLObject'' \<mapsto> CCLObject_class,
      ''CCLAutoreprObject'' \<mapsto> \<lparr>mro = [''CCLAutoreprObject'', ''CCLObject''],
         v_repr = Some Object_repr, v_cached_repr = Some CCLAutoreprObject_repr,
         v_repr_attrs = None, v_eq_attrs = None, v_init = None, v_update_parameters = None\<rparr>,
      ''Point'' \<mapsto> \<lparr>mro = [''Point'', ''CCLAutoreprObject'', ''CCLObject''], v_repr = None,
         v_cached_repr = None, v_repr_attrs = Some [''a'', ''b''], v_eq_attrs = None,
         v_init = Some (Wrapper Point_init ''self'' False), v_update_parameters = None\<rparr>,
      ''MyType'' \<mapsto> \<lparr>mro = [''MyType'', ''CCLObject''], v_repr = None,
         v_cached_repr = None, v_repr_attrs = None, v_eq_attrs = None,
         v_init = None, v_update_parameters = None\<rparr>],
     fr_enabled = False, fr_classes = [(''CCLAutoreprObject'', CCLAutoreprObject_repr)]\<rparr>"
  by (simp add: disabled_world_def FancyRepr_disable_def example_world_eq upd_class_def
      fun_upd_twist)

lemma enable_disabled_world: "FancyRepr_enable disabled_world = example_world"
  by (simp add: FancyRepr_enable_def disabled_world_eq example_world_eq
      FancyRepr_bind_and_replace_def upd_class_def fun_upd_twist)

lemma example_lookups:
  "type_lookup example_world ''Point'' v_init = Some (Wrapper Point_init ''self'' False)"
  "type_lookup example_world ''MyType'' v_init = None"
  "class_repr example_world ''Point'' = Ccl_repr"
  "type_lookup example_world ''Point'' v_cached_repr = Some CCLAutoreprObject_repr"
  "type_lookup example_world ''Point'' v_repr_attrs = Some [''a'', ''b'']"
  "type_lookup example_world ''Point'' v_eq_attrs = None"
  by (simp_all add: example_world_eq type_lookup_def class_repr_def CCLObject_class_def)

lemma disabled_lookups:
  "type_lookup disabled_world ''Point'' v_init = Some (Wrapper Point_init ''self'' False)"
  "class_repr disabled_world ''Point'' = Object_repr"
  "type_lookup disabled_world ''Point'' v_cached_repr = Some CCLAutoreprObject_repr"
  "type_lookup disabled_world ''Point'' v_repr_attrs = Some [''a'', ''b'']"
  "type_lookup disabled_world ''Point'' v_eq_attrs = None"
  by (simp_all add: disabled_world_eq type_lookup_def class_repr_def CCLObject_class_def)

lemmas run_defs = wrapper_def Point_init_def Signature_bind_def UnlockInstance_init_def
  isinstance_CCLObject_def UnlockInstance_enter_def UnlockInstance_exit_def on_target_def
  enter_instance_def exit_instance_def Point_init_body_def heap_setattr_def setattr_def
  CCLObject_new_def ObjectLock_new_def active_def locked_def unlock_def lock_def Let_def

text \<open>
  The constructor of \<open>Point\<close> is wrapped by \<open>Funlock\<close>, and the instance it returns is
  locked.
\<close>

lemma construct_Point:
  "type_lookup w ''Point'' v_init = Some (Wrapper Point_init ''self'' False) \<Longrightarrow>
   construct w ''Point'' a i [x, y] [] h = (Inr (PRef a), h(a \<mapsto> Point_object a x y))"
  by (simp add: construct_def run_defs Point_object_def)

lemma Point_heap_eq: "Point_heap = [1 \<mapsto> Point_object 1 (PInt 1) (PInt 2)]"
  by (simp add: Point_heap_def construct_Point example_lookups)

lemma hashed_heap_eq:
  "hashed_heap = [1 \<mapsto> (Point_object 1 (PInt 1) (PInt 2))
      \<lparr>dict := [''a'' \<mapsto> PInt 1, ''b'' \<mapsto> PInt 2,
                 ''_hash'' \<mapsto> PInt (example_hash ''<Point object at 1>'')]\<rparr>]"
  by (simp add: hashed_heap_def construct_Point disabled_lookups py_hash_def getattr_hash_def
      py_repr_def repr_body_def Point_object_def example_env_def example_object_repr_def)

lemma mutated_heap_eq:
  "mutated_heap = [1 \<mapsto> (Point_object 1 (PInt 1) (PInt 2))
      \<lparr>dict := [''a'' \<mapsto> PInt 5, ''b'' \<mapsto> PInt 2,
                 ''_hash'' \<mapsto> PInt (example_hash ''<Point object at 1>'')]\<rparr>]"
  apply (simp add: mutated_heap_def mutating_manager_def hashed_heap_eq run_defs
      Point_object_def reset_repr_def delattr_def)
  apply (rule ext)
  apply (simp add: fun_upd_twist)
  done

subsection \<open>Locks and managers\<close>

lemma on_target_same:
  "u_instance V = PRef a \<Longrightarrow> h a = Some x \<Longrightarrow> f x = x \<Longrightarrow> on_target V f h = h"
  by (auto simp: on_target_def)

lemma on_target_at:
  "u_instance V = PRef a \<Longrightarrow> h a = Some x \<Longrightarrow> on_target V f h a = Some (f x)"
  by (simp add: on_target_def)

lemma enter_instance_active:
  "u_lock_id (object_lock x) \<noteq> None \<Longrightarrow> enter_instance V x = x"
  by (simp add: enter_instance_def active_def)

lemma enter_instance_inactive:
  "check_instance U \<Longrightarrow> u_lock_id (object_lock x) = None \<Longrightarrow>
   enter_instance U x = x\<lparr>object_lock := \<lparr>u_locked = False, u_lock_id = Some (u_id U)\<rparr>\<rparr>"
  by (simp add: enter_instance_def active_def unlock_def)

lemma exit_instance_other:
  "u_lock_id (object_lock x) \<noteq> Some (u_id V) \<Longrightarrow> exit_instance V x = x"
  by (auto simp: exit_instance_def)

lemma object_lock_reset_repr: "object_lock (reset_repr x) = object_lock x"
  by (simp add: reset_repr_def delattr_def split: option.splits)

lemma exit_instance_owner:
  "check_instance U \<Longrightarrow> u_lock_id (object_lock x) = Some (u_id U) \<Longrightarrow>
   object_lock (exit_instance U x) = \<lparr>u_locked = True, u_lock_id = None\<rparr>"
  by (simp add: exit_instance_def lock_def Let_def object_lock_reset_repr)

text \<open>
  A manager is active on an instance only while the instance is unlocked: the three
  operations on an \<open>ObjectLock\<close> keep it so.
\<close>

lemma active_unlocked_new: "active ObjectLock_new \<longrightarrow> \<not> locked ObjectLock_new"
  by (simp add: active_def ObjectLock_new_def)

lemma active_unlocked_lock: "\<not> active (lock ol)"
  by (simp add: active_def lock_def)

lemma active_unlocked_unlock: "\<not> locked (unlock ol m)"
  by (simp add: locked_def unlock_def Let_def split: option.splits)

text \<open>
  Claim C3.  Let a manager \<open>U\<close> be the active one on the instance at address \<open>a\<close> (the lock
  of the instance carries the identity of \<open>U\<close>), and let \<open>V\<close> be another manager on the same
  instance.  Then \<open>V.__enter__\<close> leaves the heap as it is, \<open>V.__exit__\<close> leaves the heap as
  it is (it neither locks the instance nor deletes a cached value), and \<open>U.__exit__\<close>
  locks the instance and clears the identity.
\<close>

theorem nested_scope_is_noop:
  assumes "h a = Some x"
    and "u_instance U = PRef a" and "check_instance U"
    and "u_lock_id (object_lock x) = Some (u_id U)"
    and "u_instance V = PRef a" and "u_id V \<noteq> u_id U"
  shows "UnlockInstance_enter V h = h
    \<and> UnlockInstance_exit V h = h
    \<and> (\<exists>x'. UnlockInstance_exit U h a = Some x'
          \<and> locked (object_lock x') \<and> u_lock_id (object_lock x') = None)"
proof -
  have e: "UnlockInstance_enter V h = h"
    unfolding UnlockInstance_enter_def
    using on_target_same [of V a h x "enter_instance V"] assms(1,4,5)
    by (simp add: enter_instance_active)
  have x: "UnlockInstance_exit V h = h"
    unfolding UnlockInstance_exit_def
    using on_target_same [of V a h x "exit_instance V"] assms(1,4,5,6)
    by (simp add: exit_instance_other)
  have o: "UnlockInstance_exit U h a = Some (exit_instance U x)"
    using on_target_at [of U a h x "exit_instance U"] assms(1,2)
    by (simp add: UnlockInstance_exit_def)
  have ol: "object_lock (exit_instance U x) = \<lparr>u_locked = True, u_lock_id = None\<rparr>"
    by (rule exit_instance_owner [OF assms(3,4)])
  show ?thesis using e x o ol by (simp add: locked_def)
qed

theorem nested_scope_is_noop_witness:
  "entered_heap 1 = Some ((Point_object 1 (PInt 1) (PInt 2))
       \<lparr>object_lock := \<lparr>u_locked = False, u_lock_id = Some 7\<rparr>\<rparr>)
   \<and> u_id inner_manager \<noteq> u_id outer_manager
   \<and> UnlockInstance_enter inner_manager entered_heap = entered_heap
   \<and> UnlockInstance_exit inner_manager entered_heap = entered_heap
   \<and> (\<exists>x'. UnlockInstance_exit outer_manager entered_heap 1 = Some x'
         \<and> locked (object_lock x') \<and> u_lock_id (object_lock x') = None)"
proof -
  have h: "entered_heap 1 = Some ((Point_object 1 (PInt 1) (PInt 2))
       \<lparr>object_lock := \<lparr>u_locked = False, u_lock_id = Some 7\<rparr>\<rparr>)"
    by (simp add: entered_heap_def outer_manager_def Point_heap_eq run_defs Point_object_def)
  have U: "u_instance outer_manager = PRef 1" "check_instance outer_manager"
      "u_id outer_manager = 7"
    by (simp_all add: outer_manager_def UnlockInstance_init_def isinstance_CCLObject_def
        Point_heap_eq)
  have V: "u_instance inner_manager = PRef 1" "u_id inner_manager = 8"
    by (simp_all add: inner_manager_def UnlockInstance_init_def)
  show ?thesis
    using nested_scope_is_noop [of entered_heap 1 _ outer_manager inner_manager, OF h] U V h
    by simp
qed

text \<open>
  Claim C4 (the code does not keep it).  \<open>__exit__\<close> deletes \<open>_repr\<close> first, and the
  \<open>AttributeError\<close> of an instance that has no cached \<open>_repr\<close> skips the deletion of
  \<open>_hash\<close>.  With the representations disabled, \<open>hash(p)\<close> caches a hash and no
  representation; the manager of \<open>with UnlockInstance(p): p.a = 5\<close> owns the lock and has
  \<open>mutate\<close> set, and its exit locks the instance and leaves the cached hash in place.
  After \<open>FancyRepr.enable()\<close>, \<open>hash(p)\<close> is still the hash of the former
  representation, not of the one \<open>repr(p)\<close> returns.
\<close>

theorem stale_hash_survives_mutation:
  "u_mutate mutating_manager \<and> check_instance mutating_manager
   \<and> (case mutated_heap 1 of
         None \<Rightarrow> False
       | Some x \<Rightarrow>
           locked (object_lock x) \<and> dict x ''a'' = Some (PInt 5)
           \<and> dict x ''_hash'' = Some (PInt (example_hash ''<Point object at 1>''))
           \<and> fst (py_repr example_env (FancyRepr_enable disabled_world) x)
               = Inr (''Point'' @ [CHR 0x0A] @ ''  a = 5'' @ [CHR 0x0A] @ ''  b = 2'')
           \<and> fst (py_hash example_env (FancyRepr_enable disabled_world) x)
               = Inr (example_hash ''<Point object at 1>''))
   \<and> example_hash ''<Point object at 1>''
       \<noteq> example_hash (''Point'' @ [CHR 0x0A] @ ''  a = 5'' @ [CHR 0x0A] @ ''  b = 2'')"
proof -
  have m: "u_mutate mutating_manager \<and> check_instance mutating_manager"
    by (simp add: mutating_manager_def UnlockInstance_init_def isinstance_CCLObject_def
        hashed_heap_eq)
  have r: "fst (py_repr example_env example_world ((Point_object 1 (PInt 1) (PInt 2))
      \<lparr>dict := [''a'' \<mapsto> PInt 5, ''b'' \<mapsto> PInt 2,
                 ''_hash'' \<mapsto> PInt (example_hash ''<Point object at 1>'')]\<rparr>))
       = Inr (''Point'' @ [CHR 0x0A] @ ''  a = 5'' @ [CHR 0x0A] @ ''  b = 2'')"
    by (simp add: py_repr_def getattr_repr_def repr_body_def example_lookups Point_object_def
        example_env_def example_build_string_def render_def)
  have n: "example_hash ''<Point object at 1>''
       \<noteq> example_hash (''Point'' @ [CHR 0x0A] @ ''  a = 5'' @ [CHR 0x0A] @ ''  b = 2'')"
    by (simp add: example_hash_def)
  show ?thesis
    using m r n
    by (simp add: mutated_heap_eq enable_disabled_world py_hash_def getattr_hash_def
        Point_object_def locked_def)
qed

text \<open>
  What \<open>__exit__\<close> does reach: when the manager owns the lock, has \<open>mutate\<close> set and the
  instance has a cached \<open>_repr\<close>, both cached values are gone after the exit and the
  instance is locked; when the instance has no cached \<open>_repr\<close>, its dictionary is left
  as it is.
\<close>

lemma exit_clears_cached_repr:
  assumes "check_instance U" and "u_lock_id (object_lock x) = Some (u_id U)" and "u_mutate U"
    and "dict x ''_repr'' \<noteq> None"
  shows "dict (exit_instance U x) ''_repr'' = None \<and> dict (exit_instance U x) ''_hash'' = None
    \<and> locked (object_lock (exit_instance U x))"
  using assms
  by (auto simp: exit_instance_def reset_repr_def delattr_def lock_def locked_def Let_def
      split: option.splits)

lemma exit_keeps_dict_without_repr:
  assumes "dict x ''_repr'' = None"
  shows "dict (exit_instance U x) = dict x"
  using assms by (simp add: exit_instance_def reset_repr_def delattr_def Let_def)

subsection \<open>The registry of representations\<close>

text \<open>
  \<open>FancyRepr.enable\<close> and \<open>FancyRepr.disable\<close> loop over the registered classes; what
  the loops leave in the namespace of a class.
\<close>

lemma classes_upd_class:
  "classes (upd_class w cl g) = (\<lambda>c. if c = cl then map_option g (classes w c) else classes w c)"
  by (auto simp: upd_class_def split: option.splits)

lemma fr_classes_upd_class [simp]: "fr_classes (upd_class w cl g) = fr_classes w"
  by (simp add: upd_class_def split: option.splits)

lemma fr_enabled_upd_class [simp]: "fr_enabled (upd_class w cl g) = fr_enabled w"
  by (simp add: upd_class_def split: option.splits)

lemma classes_fold_upd_class:
  assumes "\<And>k. g (g k) = g k"
  shows "classes (fold (\<lambda>cl w'. upd_class w' cl g) cs w) c
     = (if c \<in> set cs then map_option g (classes w c) else classes w c)"
  using assms
proof (induction cs arbitrary: w)
  case Nil
  then show ?case by simp
next
  case (Cons d cs)
  show ?case
    by (simp add: Cons.IH [OF Cons.prems] classes_upd_class option.map_comp comp_def Cons.prems)
qed

lemma classes_disable:
  "classes (FancyRepr_disable w) c
     = (if c \<in> fst ` set (fr_classes w)
        then map_option (\<lambda>k. k\<lparr>v_repr := Some Object_repr\<rparr>) (classes w c)
        else classes w c)"
  by (simp add: FancyRepr_disable_def classes_fold_upd_class)

lemma classes_bind_and_replace:
  "classes (FancyRepr_bind_and_replace w cl m)
     = (\<lambda>c. if c = cl
            then map_option (\<lambda>k. k\<lparr>v_cached_repr := Some m, v_repr := Some Ccl_repr\<rparr>) (classes w c)
            else classes w c)"
  by (simp add: FancyRepr_bind_and_replace_def classes_upd_class)

lemma classes_fold_bind:
  assumes "distinct (map fst al)"
  shows "classes (fold (\<lambda>(cl, method) w'. FancyRepr_bind_and_replace w' cl method) al w) c
     = (case map_of al c of
          None \<Rightarrow> classes w c
        | Some m \<Rightarrow> map_option (\<lambda>k. k\<lparr>v_cached_repr := Some m, v_repr := Some Ccl_repr\<rparr>) (classes w c))"
  using assms
proof (induction al arbitrary: w)
  case Nil
  then show ?case by simp
next
  case (Cons p al)
  obtain d m where p: "p = (d, m)" by (cases p)
  have d: "map_of al d = None" using Cons.prems p by (simp add: map_of_eq_None_iff)
  have dist: "distinct (map fst al)" using Cons.prems by simp
  show ?case
    using d
    by (simp add: p Cons.IH [OF dist] classes_bind_and_replace split: option.splits)
qed

lemma classes_enable:
  "distinct (map fst (fr_classes w)) \<Longrightarrow>
   classes (FancyRepr_enable w) c
     = (case map_of (fr_classes w) c of
          None \<Rightarrow> classes w c
        | Some m \<Rightarrow> map_option (\<lambda>k. k\<lparr>v_cached_repr := Some m, v_repr := Some Ccl_repr\<rparr>) (classes w c))"
  by (simp add: FancyRepr_enable_def classes_fold_bind)

lemma lookup_mro_skip:
  "\<forall>d\<in>set pre. \<forall>kd. ct d = Some kd \<longrightarrow> sel kd = None \<Longrightarrow>
   lookup_mro ct sel (pre @ cs) = lookup_mro ct sel cs"
proof (induction pre)
  case Nil
  then show ?case by simp
next
  case (Cons a pre)
  have a: "\<And>kd. ct a = Some kd \<Longrightarrow> sel kd = None" using Cons.prems by auto
  have "lookup_mro ct sel (pre @ cs) = lookup_mro ct sel cs"
    using Cons.IH Cons.prems by simp
  then show ?case using a by (simp split: option.splits)
qed

lemma lookup_mro_cong_sel:
  "(\<And>d. d \<in> set cs \<Longrightarrow> map_option sel (ct' d) = map_option sel (ct d)) \<Longrightarrow>
   lookup_mro ct' sel cs = lookup_mro ct sel cs"
proof (induction cs)
  case Nil
  then show ?case by simp
next
  case (Cons d cs)
  have "map_option sel (ct' d) = map_option sel (ct d)" using Cons.prems by simp
  moreover have "lookup_mro ct' sel cs = lookup_mro ct sel cs" using Cons by simp
  ultimately show ?case
    by (cases "ct d"; cases "ct' d") (auto split: option.splits)
qed


lemma type_lookup_disable_other:
  assumes "\<And>k. sel (k\<lparr>v_repr := Some Object_repr\<rparr>) = sel k"
  shows "type_lookup (FancyRepr_disable w) c sel = type_lookup w c sel"
proof -
  have m: "map_option sel (classes (FancyRepr_disable w) d) = map_option sel (classes w d)" for d
    by (simp add: classes_disable option.map_comp comp_def assms)
  have l: "lookup_mro (classes (FancyRepr_disable w)) sel cs = lookup_mro (classes w) sel cs" for cs
    by (rule lookup_mro_cong_sel) (simp add: m)
  show ?thesis
    by (cases "classes w c") (auto simp: type_lookup_def classes_disable l)
qed

lemma type_lookup_enable_other:
  assumes "distinct (map fst (fr_classes w))"
    and "\<And>k m. sel (k\<lparr>v_cached_repr := Some m, v_repr := Some Ccl_repr\<rparr>) = sel k"
  shows "type_lookup (FancyRepr_enable w) c sel = type_lookup w c sel"
proof -
  have m: "map_option sel (classes (FancyRepr_enable w) d) = map_option sel (classes w d)" for d
    by (simp add: classes_enable assms option.map_comp comp_def split: option.splits)
  have l: "lookup_mro (classes (FancyRepr_enable w)) sel cs = lookup_mro (classes w) sel cs" for cs
    by (rule lookup_mro_cong_sel) (simp add: m)
  show ?thesis
    by (cases "classes w c"; cases "map_of (fr_classes w) c")
      (auto simp: type_lookup_def classes_enable assms(1) l)
qed

lemma repr_body_disable: "repr_body E (FancyRepr_disable w) f x = repr_body E w f x"
proof -
  have "type_lookup (FancyRepr_disable w) (cls x) v_repr_attrs = type_lookup w (cls x) v_repr_attrs"
    by (rule type_lookup_disable_other) simp
  then show ?thesis by (cases f) (simp_all add: repr_body_def)
qed

lemma repr_body_enable:
  assumes "distinct (map fst (fr_classes w))"
  shows "repr_body E (FancyRepr_enable w) f x = repr_body E w f x"
proof -
  have "type_lookup (FancyRepr_enable w) (cls x) v_repr_attrs = type_lookup w (cls x) v_repr_attrs"
    by (rule type_lookup_enable_other [OF assms]) simp
  then show ?thesis by (cases f) (simp_all add: repr_body_def)
qed

lemma class_repr_disable:
  assumes "classes w c' = Some k'" and "mro k' = pre @ c # rest"
    and "\<forall>d\<in>set pre. map_of (fr_classes w) d = None
           \<and> (\<forall>kd. classes w d = Some kd \<longrightarrow> v_repr kd = None \<and> v_cached_repr kd = None)"
    and "classes w c = Some k" and "map_of (fr_classes w) c = Some f"
  shows "class_repr (FancyRepr_disable w) c' = Object_repr"
proof -
  let ?w = "FancyRepr_disable w"
  have reg: "c \<in> fst ` set (fr_classes w)"
    using assms(5) by (metis map_of_eq_None_iff option.distinct(1))
  have c: "classes ?w c = Some (k\<lparr>v_repr := Some Object_repr\<rparr>)"
    using reg assms(4) by (simp add: classes_disable)
  have pre: "\<forall>d\<in>set pre. \<forall>kd. classes ?w d = Some kd \<longrightarrow> v_repr kd = None"
    using assms(3) by (auto simp: classes_disable map_of_eq_None_iff)
  have m: "\<exists>k''. classes ?w c' = Some k'' \<and> mro k'' = pre @ c # rest"
    using assms(1,2) by (auto simp: classes_disable)
  have "lookup_mro (classes ?w) v_repr (pre @ c # rest) = Some Object_repr"
    using lookup_mro_skip [OF pre, of "c # rest"] c by simp
  then show ?thesis using m by (auto simp: class_repr_def type_lookup_def)
qed

lemma lookups_enable:
  assumes "classes w c' = Some k'" and "mro k' = pre @ c # rest"
    and "\<forall>d\<in>set pre. map_of (fr_classes w) d = None
           \<and> (\<forall>kd. classes w d = Some kd \<longrightarrow> v_repr kd = None \<and> v_cached_repr kd = None)"
    and "classes w c = Some k" and "map_of (fr_classes w) c = Some f"
    and "distinct (map fst (fr_classes w))"
  shows "class_repr (FancyRepr_enable w) c' = Ccl_repr"
    and "type_lookup (FancyRepr_enable w) c' v_cached_repr = Some f"
proof -
  let ?w = "FancyRepr_enable w"
  have c: "classes ?w c = Some (k\<lparr>v_cached_repr := Some f, v_repr := Some Ccl_repr\<rparr>)"
    using assms(4,5,6) by (simp add: classes_enable)
  have pre1: "\<forall>d\<in>set pre. \<forall>kd. classes ?w d = Some kd \<longrightarrow> v_repr kd = None"
    using assms(3,6) by (auto simp: classes_enable)
  have pre2: "\<forall>d\<in>set pre. \<forall>kd. classes ?w d = Some kd \<longrightarrow> v_cached_repr kd = None"
    using assms(3,6) by (auto simp: classes_enable)
  have m: "\<exists>k''. classes ?w c' = Some k'' \<and> mro k'' = pre @ c # rest"
    using assms(1,2,6) by (auto simp: classes_enable split: option.splits)
  have "lookup_mro (classes ?w) v_repr (pre @ c # rest) = Some Ccl_repr"
    using lookup_mro_skip [OF pre1, of "c # rest"] c by simp
  then show "class_repr (FancyRepr_enable w) c' = Ccl_repr"
    using m by (auto simp: class_repr_def type_lookup_def)
  have "lookup_mro (classes ?w) v_cached_repr (pre @ c # rest) = Some f"
    using lookup_mro_skip [OF pre2, of "c # rest"] c by simp
  then show "type_lookup (FancyRepr_enable w) c' v_cached_repr = Some f"
    using m by (auto simp: type_lookup_def)
qed

text \<open>
  Claim C6, as amended.  Let \<open>c\<close> be a registered class with the custom representation
  \<open>f\<close>, and \<open>x\<close> an instance of \<open>c\<close> or of a class that inherits its representation from
  \<open>c\<close> (no class before \<open>c\<close> in the order is registered or has a \<open>__repr__\<close> or \<open>_repr\<close> of
  its own).  After \<open>FancyRepr.disable()\<close>, \<open>repr(x)\<close> is \<open>object.__repr__(x)\<close> and the
  instance is left as it was (nothing is cached).  After \<open>FancyRepr.enable()\<close>,
  \<open>repr(x)\<close> is the cached \<open>_repr\<close> if there is one, and otherwise \<open>f(x)\<close>, which is
  then cached.  Whether the default differs from the custom representation is left to
  \<open>f\<close>.
\<close>

theorem fancy_repr_toggle:
  assumes "classes w (cls x) = Some k'" and "mro k' = pre @ c # rest"
    and "\<forall>d\<in>set pre. map_of (fr_classes w) d = None
           \<and> (\<forall>kd. classes w d = Some kd \<longrightarrow> v_repr kd = None \<and> v_cached_repr kd = None)"
    and "classes w c = Some k" and "map_of (fr_classes w) c = Some f"
    and "distinct (map fst (fr_classes w))"
  shows "py_repr E (FancyRepr_disable w) x = (Inr (object_repr E (cls x) (ident x)), x)
    \<and> py_repr E (FancyRepr_enable w) x =
        (case dict x ''_repr'' of
           Some (PStr s) \<Rightarrow> (Inr s, x)
         | Some _ \<Rightarrow> (Inl TypeError, x)
         | None \<Rightarrow>
             (case repr_body E w f x of
                Inl e \<Rightarrow> (Inl e, x)
              | Inr s \<Rightarrow> (Inr s, x\<lparr>dict := (dict x)(''_repr'' \<mapsto> PStr s)\<rparr>)))"
proof -
  have d: "py_repr E (FancyRepr_disable w) x = (Inr (object_repr E (cls x) (ident x)), x)"
    using class_repr_disable [OF assms(1-5)] by (simp add: py_repr_def repr_body_def)
  have e: "py_repr E (FancyRepr_enable w) x =
        (case dict x ''_repr'' of
           Some (PStr s) \<Rightarrow> (Inr s, x)
         | Some _ \<Rightarrow> (Inl TypeError, x)
         | None \<Rightarrow>
             (case repr_body E w f x of
                Inl e \<Rightarrow> (Inl e, x)
              | Inr s \<Rightarrow> (Inr s, x\<lparr>dict := (dict x)(''_repr'' \<mapsto> PStr s)\<rparr>)))"
    using lookups_enable [OF assms] assms(6)
    by (simp add: py_repr_def getattr_repr_def repr_body_enable
        split: option.splits pyval.splits sum.splits)
  show ?thesis using d e by simp
qed

theorem fancy_repr_toggle_witness:
  "py_repr example_env (FancyRepr_disable example_world) (Point_object 1 (PInt 1) (PInt 2))
     = (Inr ''<Point object at 1>'', Point_object 1 (PInt 1) (PInt 2))
   \<and> py_repr example_env (FancyRepr_enable example_world) (Point_object 1 (PInt 1) (PInt 2))
     = (Inr (''Point'' @ [CHR 0x0A] @ ''  a = 1'' @ [CHR 0x0A] @ ''  b = 2''),
        (Point_object 1 (PInt 1) (PInt 2))
          \<lparr>dict := (dict (Point_object 1 (PInt 1) (PInt 2)))
             (''_repr'' \<mapsto> PStr (''Point'' @ [CHR 0x0A] @ ''  a = 1'' @ [CHR 0x0A] @ ''  b = 2''))\<rparr>)"
proof -
  let ?p = "Point_object 1 (PInt 1) (PInt 2)"
  have 1: "classes example_world (cls ?p)
      = Some \<lparr>mro = [''Point'', ''CCLAutoreprObject'', ''CCLObject''], v_repr = None,
         v_cached_repr = None, v_repr_attrs = Some [''a'', ''b''], v_eq_attrs = None,
         v_init = Some (Wrapper Point_init ''self'' False), v_update_parameters = None\<rparr>"
    by (simp add: example_world_eq Point_object_def)
  have 3: "\<forall>d\<in>set [''Point'']. map_of (fr_classes example_world) d = None
      \<and> (\<forall>kd. classes example_world d = Some kd \<longrightarrow> v_repr kd = None \<and> v_cached_repr kd = None)"
    by (simp add: example_world_eq)
  have 4: "classes example_world ''CCLAutoreprObject''
      = Some \<lparr>mro = [''CCLAutoreprObject'', ''CCLObject''],
         v_repr = Some Ccl_repr, v_cached_repr = Some CCLAutoreprObject_repr,
         v_repr_attrs = None, v_eq_attrs = None, v_init = None, v_update_parameters = None\<rparr>"
    by (simp add: example_world_eq)
  have 5: "map_of (fr_classes example_world) ''CCLAutoreprObject'' = Some CCLAutoreprObject_repr"
    by (simp add: example_world_eq)
  have 6: "distinct (map fst (fr_classes example_world))"
    by (simp add: example_world_eq)
  have r: "repr_body example_env example_world CCLAutoreprObject_repr ?p
      = Inr (''Point'' @ [CHR 0x0A] @ ''  a = 1'' @ [CHR 0x0A] @ ''  b = 2'')"
    by (simp add: repr_body_def example_lookups Point_object_def example_env_def
        example_build_string_def render_def)
  have o: "object_repr example_env (cls ?p) (ident ?p) = ''<Point object at 1>''"
    by (simp add: example_env_def example_object_repr_def Point_object_def)
  have n: "dict ?p ''_repr'' = None"
    by (simp add: Point_object_def)
  show ?thesis
    using fancy_repr_toggle [of example_world ?p _ "[''Point'']" "''CCLAutoreprObject''"
        "[''CCLObject'']" _ CCLAutoreprObject_repr example_env, OF 1 _ 3 4 5 6]
    by (simp add: r o n del: One_nat_def)
qed

text \<open>
  The claim as it stands fails on the module's own \<open>CCLAutoreprObject\<close>: the class is
  registered with a custom \<open>__repr__\<close>, which returns \<open>object.__repr__(self)\<close> for a class
  without \<open>__repr_attrs__\<close>.  For \<open>x = CCLAutoreprObject()\<close> the representation after
  \<open>FancyRepr.disable()\<close> is therefore equal to the custom representation.
\<close>

theorem disabled_repr_equals_custom_repr:
  "map_of (fr_classes module_world) ''CCLAutoreprObject'' = Some CCLAutoreprObject_repr
   \<and> construct module_world ''CCLAutoreprObject'' 4 103 [] [] Map.empty
       = (Inr (PRef 4), [4 \<mapsto> CCLObject_new ''CCLAutoreprObject'' 4])
   \<and> fst (py_repr example_env (FancyRepr_disable module_world)
            (CCLObject_new ''CCLAutoreprObject'' 4))
       = Inr ''<CCLAutoreprObject object at 4>''
   \<and> repr_body example_env (FancyRepr_disable module_world) CCLAutoreprObject_repr
        (CCLObject_new ''CCLAutoreprObject'' 4)
       = Inr ''<CCLAutoreprObject object at 4>''"
proof -
  have d: "FancyRepr_disable module_world = \<lparr>classes = [''CCLObject'' \<mapsto> CCLObject_class,
      ''CCLAutoreprObject'' \<mapsto> \<lparr>mro = [''CCLAutoreprObject'', ''CCLObject''],
         v_repr = Some Object_repr, v_cached_repr = Some CCLAutoreprObject_repr,
         v_repr_attrs = None, v_eq_attrs = None, v_init = None, v_update_parameters = None\<rparr>],
     fr_enabled = False, fr_classes = [(''CCLAutoreprObject'', CCLAutoreprObject_repr)]\<rparr>"
    by (simp add: FancyRepr_disable_def module_world_eq upd_class_def)
  have r: "map_of (fr_classes module_world) ''CCLAutoreprObject'' = Some CCLAutoreprObject_repr"
    by (simp add: module_world_eq)
  have c: "construct module_world ''CCLAutoreprObject'' 4 103 [] [] Map.empty
       = (Inr (PRef 4), [4 \<mapsto> CCLObject_new ''CCLAutoreprObject'' 4])"
    by (simp add: construct_def module_world_eq type_lookup_def CCLObject_class_def)
  have p: "fst (py_repr example_env (FancyRepr_disable module_world)
            (CCLObject_new ''CCLAutoreprObject'' 4))
       = Inr ''<CCLAutoreprObject object at 4>''"
    by (simp add: d py_repr_def class_repr_def repr_body_def type_lookup_def
        CCLObject_class_def CCLObject_new_def example_env_def example_object_repr_def)
  have b: "repr_body example_env (FancyRepr_disable module_world) CCLAutoreprObject_repr
        (CCLObject_new ''CCLAutoreprObject'' 4)
       = Inr ''<CCLAutoreprObject object at 4>''"
    by (simp add: d repr_body_def type_lookup_def
        CCLObject_class_def CCLObject_new_def example_env_def example_object_repr_def)
  show ?thesis
    using r c p b by blast
qed

subsection \<open>Construction\<close>

text \<open>
  Claim C2 (the code does not keep it).  An instance is locked by the \<open>__exit__\<close> of the
  manager that \<open>Funlock\<close> wraps around \<open>__init__\<close>, and \<open>Funlock\<close> wraps only an
  \<open>__init__\<close> that a class statement defines.  \<open>MyType\<close> defines none and inherits none
  but \<open>object.__init__\<close>: \<open>MyType()\<close> returns an instance whose lock is still as
  \<open>__new__\<close> made it, unlocked and with no active manager, and an assignment to an
  attribute of it succeeds outside any manager.
\<close>

theorem construction_without_init_unlocked:
  "fst (construct example_world ''MyType'' 3 102 [] [] Map.empty) = Inr (PRef 3)
   \<and> map_option (\<lambda>x. locked (object_lock x)) (MyType_heap 3) = Some False
   \<and> map_option (\<lambda>x. active (object_lock x)) (MyType_heap 3) = Some False
   \<and> fst (heap_setattr MyType_heap 3 ''my_attr'' (PStr ''hello_world'')) = Inr PNone
   \<and> map_option (\<lambda>x. dict x ''my_attr'')
        (snd (heap_setattr MyType_heap 3 ''my_attr'' (PStr ''hello_world'')) 3)
       = Some (Some (PStr ''hello_world''))"
  by (simp add: MyType_heap_def construct_def example_lookups CCLObject_new_def
      ObjectLock_new_def locked_def active_def heap_setattr_def setattr_def)

text \<open>
  The rest of the claim holds as it stands.  On a locked instance \<open>__setattr__\<close> raises
  and changes nothing.  And when the order finds an \<open>__init__\<close> that \<open>Funlock\<close> has
  wrapped, whose body returns \<open>None\<close> and leaves the lock as the manager set it, the
  constructor returns a locked instance with no active manager; \<open>Point\<close> is such a
  class.
\<close>

lemma setattr_locked: "locked (object_lock x) \<Longrightarrow> setattr x name v = Inl AttributeError"
  by (simp add: setattr_def)

lemma construct_wrapped_init_locked:
  assumes "type_lookup w c v_init = Some (Wrapper f n mutate)"
    and "Signature_bind (f_signature f) (PRef a # args) kw = Inr arguments"
    and "arguments n = Some (PRef a)"
    and "f_body f (PRef a # args) kw
           (h(a \<mapsto> (CCLObject_new c a)\<lparr>object_lock := \<lparr>u_locked = False, u_lock_id = Some new_id\<rparr>\<rparr>))
         = (Inr PNone, h2)"
    and "h2 a = Some x2"
    and "object_lock x2 = \<lparr>u_locked = False, u_lock_id = Some new_id\<rparr>"
  shows "\<exists>x3. construct w c a new_id args kw h = (Inr (PRef a), h2(a \<mapsto> x3))
    \<and> locked (object_lock x3) \<and> \<not> active (object_lock x3)"
proof -
  let ?h0 = "h(a \<mapsto> CCLObject_new c a)"
  let ?U = "UnlockInstance_init ?h0 (PRef a) mutate new_id"
  have U: "u_instance ?U = PRef a" "check_instance ?U" "u_id ?U = new_id"
    by (simp_all add: UnlockInstance_init_def isinstance_CCLObject_def)
  have e: "UnlockInstance_enter ?U ?h0
      = h(a \<mapsto> (CCLObject_new c a)\<lparr>object_lock := \<lparr>u_locked = False, u_lock_id = Some new_id\<rparr>\<rparr>)"
    using U
    by (simp add: UnlockInstance_enter_def on_target_def enter_instance_def active_def unlock_def
        CCLObject_new_def ObjectLock_new_def)
  have x: "UnlockInstance_exit ?U h2 = h2(a \<mapsto> exit_instance ?U x2)"
    using U(1) assms(5) by (simp add: UnlockInstance_exit_def on_target_def)
  have l: "object_lock (exit_instance ?U x2) = \<lparr>u_locked = True, u_lock_id = None\<rparr>"
    by (rule exit_instance_owner [OF U(2)]) (simp add: assms(6) U(3))
  have w: "wrapper f n mutate new_id (PRef a # args) kw ?h0
      = (Inr PNone, h2(a \<mapsto> exit_instance ?U x2))"
    using assms(2,3,4) e x by (simp add: wrapper_def Let_def)
  have "construct w c a new_id args kw h = (Inr (PRef a), h2(a \<mapsto> exit_instance ?U x2))"
    using assms(1) w by (simp add: construct_def Let_def)
  then show ?thesis using l by (auto simp: locked_def active_def)
qed

lemma Point_is_locked:
  "Point_heap 1 = Some (Point_object 1 (PInt 1) (PInt 2))
   \<and> locked (object_lock (Point_object 1 (PInt 1) (PInt 2)))
   \<and> heap_setattr Point_heap 1 ''a'' (PInt 5) = (Inl AttributeError, Point_heap)"
  by (simp add: Point_heap_eq Point_object_def locked_def heap_setattr_def setattr_def)

subsection \<open>Equality\<close>

text \<open>
  Claim C5.  \<open>CCLObject.__eq__\<close> on two instances of different classes returns \<open>False\<close>,
  whatever their dictionaries hold, and reads no representation (both instances come
  back as they were).
\<close>

theorem eq_different_types:
  "cls x \<noteq> cls y \<Longrightarrow> py_eq E w x y = (Inr False, x, y)"
  by (simp add: py_eq_def)

theorem eq_different_types_witness:
  "cls (CCLObject_new ''Point'' 1) \<noteq> cls (CCLObject_new ''MyType'' 2)
   \<and> py_eq example_env example_world (CCLObject_new ''Point'' 1) (CCLObject_new ''MyType'' 2)
       = (Inr False, CCLObject_new ''Point'' 1, CCLObject_new ''MyType'' 2)"
  using eq_different_types [of "CCLObject_new ''Point'' 1" "CCLObject_new ''MyType'' 2"
      example_env example_world]
  by (simp add: CCLObject_new_def)

subsection \<open>Representation, hash and equality together\<close>

lemma py_hash_cached: "dict x ''_hash'' = Some (PInt v) \<Longrightarrow> py_hash E w x = (Inr v, x)"
  by (simp add: py_hash_def getattr_hash_def)

lemma py_hash_uncached:
  "dict x ''_hash'' = None \<Longrightarrow> fst (py_repr E w x) = Inr s \<Longrightarrow>
   fst (py_hash E w x) = Inr (str_hash E s)"
  by (cases "py_repr E w x") (auto simp: py_hash_def getattr_hash_def)

lemma exit_instance_cls [simp]: "cls (exit_instance U x) = cls x"
  by (simp add: exit_instance_def reset_repr_def delattr_def Let_def split: option.splits)

lemma exit_instance_ident [simp]: "ident (exit_instance U x) = ident x"
  by (simp add: exit_instance_def reset_repr_def delattr_def Let_def split: option.splits)

lemma py_hash_coherent:
  assumes "hash_coherent E w x" and "fst (py_repr E w x) = Inr s"
  shows "fst (py_hash E w x) = Inr (str_hash E s)"
proof (cases "dict x ''_hash''")
  case None
  then show ?thesis using assms(2) by (rule py_hash_uncached)
next
  case (Some v)
  then have "v = PInt (str_hash E s)"
    using assms by (simp add: hash_coherent_def)
  then show ?thesis using Some by (simp add: py_hash_cached)
qed

lemma py_eq_by_repr:
  assumes "cls x = cls y" and "type_lookup w (cls x) v_eq_attrs = None"
    and "fst (py_repr E w x) = Inr s" and "fst (py_repr E w y) = Inr t"
  shows "fst (py_eq E w x y) = Inr (s = t)"
  using assms
  by (cases "py_repr E w x"; cases "py_repr E w y") (simp add: py_eq_def)

text \<open>
  A hash is coherent when there is none yet, and after the first \<open>hash(x)\<close> of an instance
  whose class uses \<open>__ccl_repr__\<close> or \<open>object.__repr__\<close> (the two that \<open>FancyRepr\<close>
  installs).
\<close>

lemma py_repr_Object:
  "class_repr w (cls x) = Object_repr \<Longrightarrow> py_repr E w x = (Inr (object_repr E (cls x) (ident x)), x)"
  by (simp add: py_repr_def repr_body_def)

lemma py_repr_Ccl_cached:
  "class_repr w (cls x) = Ccl_repr \<Longrightarrow> dict x ''_repr'' = Some (PStr s) \<Longrightarrow>
   py_repr E w x = (Inr s, x)"
  by (simp add: py_repr_def getattr_repr_def)

lemma py_repr_Ccl_result:
  assumes "class_repr w (cls x) = Ccl_repr" and "py_repr E w x = (Inr s, x1)"
  shows "dict x1 ''_repr'' = Some (PStr s) \<and> cls x1 = cls x
    \<and> dict x1 ''_hash'' = dict x ''_hash''"
proof (cases "dict x ''_repr''")
  case None
  then show ?thesis
    using assms
    by (auto simp: py_repr_def getattr_repr_def split: option.splits sum.splits)
next
  case (Some v)
  then show ?thesis
    using assms
    by (cases v) (auto simp: py_repr_def getattr_repr_def)
qed

lemma hash_coherent_after_hash:
  assumes "dict x ''_hash'' = None"
    and "class_repr w (cls x) = Ccl_repr \<or> class_repr w (cls x) = Object_repr"
    and "fst (py_hash E w x) = Inr n"
  shows "hash_coherent E w (snd (py_hash E w x))"
proof -
  obtain r x1 where p: "py_repr E w x = (r, x1)" by (cases "py_repr E w x")
  obtain s where r: "r = Inr s"
    using assms(1,3) p by (cases r) (auto simp: py_hash_def getattr_hash_def)
  let ?x2 = "x1\<lparr>dict := (dict x1)(''_hash'' \<mapsto> PInt (str_hash E s))\<rparr>"
  have h: "snd (py_hash E w x) = ?x2"
    using assms(1) p r by (simp add: py_hash_def getattr_hash_def)
  have "fst (py_repr E w ?x2) = Inr s"
    using assms(2)
  proof
    assume c: "class_repr w (cls x) = Ccl_repr"
    have d: "dict x1 ''_repr'' = Some (PStr s) \<and> cls x1 = cls x"
      using py_repr_Ccl_result [OF c] p r by simp
    show ?thesis
      using py_repr_Ccl_cached [of w ?x2 s E] c d by simp
  next
    assume c: "class_repr w (cls x) = Object_repr"
    have "x1 = x \<and> s = object_repr E (cls x) (ident x)"
      using py_repr_Object [OF c, of E] p r by simp
    then show ?thesis
      using py_repr_Object [of w ?x2 E] c by simp
  qed
  then show ?thesis
    by (simp add: h hash_coherent_def)
qed

text \<open>
  A hash whose values fit 64 bits cannot tell all strings apart; the polynomial hash of
  the examples already collides on \<open>Aa\<close> and \<open>BB\<close>.
\<close>

lemma str_hash_collides:
  fixes E :: env
  assumes "\<forall>s. - (2 ^ 63) \<le> str_hash E s \<and> str_hash E s < 2 ^ 63"
  shows "\<exists>s t. s \<noteq> t \<and> str_hash E s = str_hash E t"
proof (rule ccontr)
  assume "\<not> (\<exists>s t. s \<noteq> t \<and> str_hash E s = str_hash E t)"
  then have i: "inj (str_hash E)" by (auto simp: inj_on_def)
  have "range (str_hash E) \<subseteq> {- (2 ^ 63) ..< 2 ^ 63}" using assms by auto
  then have "finite (range (str_hash E))" by (rule finite_subset) simp
  then have "finite (UNIV :: string set)" using i by (rule finite_imageD)
  then show False by (simp add: infinite_UNIV_listI)
qed

lemma example_hash_Aa_BB:
  "example_hash (''Point'' @ [CHR 0x0A] @ ''  a = Aa'' @ [CHR 0x0A] @ ''  b = 2'')
   = example_hash (''Point'' @ [CHR 0x0A] @ ''  a = BB'' @ [CHR 0x0A] @ ''  b = 2'')"
  by (simp add: example_hash_def)

lemma hashed_Point_eq:
  "hashed_Point a = (Point_object a (PInt 1) (PInt 2))
      \<lparr>dict := [''a'' \<mapsto> PInt 1, ''b'' \<mapsto> PInt 2,
         ''_repr'' \<mapsto> PStr (''Point'' @ [CHR 0x0A] @ ''  a = 1'' @ [CHR 0x0A] @ ''  b = 2''),
         ''_hash'' \<mapsto> PInt (example_hash
              (''Point'' @ [CHR 0x0A] @ ''  a = 1'' @ [CHR 0x0A] @ ''  b = 2''))]\<rparr>"
  by (simp add: hashed_Point_def py_hash_def getattr_hash_def py_repr_def getattr_repr_def
      repr_body_def example_lookups Point_object_def example_env_def example_build_string_def
      render_def)

text \<open>
  Claim C1, as amended.  Let \<open>x\<close> and \<open>y\<close> be instances of the same class, which has no
  \<open>__eq_attrs__\<close>, with representations \<open>s\<close> and \<open>t\<close>.  Then \<open>x == y\<close> is \<open>s == t\<close>.  If
  moreover the cached hash of each, when it has one, is the hash of its present
  representation, then \<open>hash(x)\<close> is the hash of \<open>s\<close> and \<open>hash(y)\<close> the hash of \<open>t\<close>: equal
  representations give equal hashes, and equal hashes give equal representations as far
  as the string hash tells \<open>s\<close> and \<open>t\<close> apart.
\<close>

theorem eq_repr_hash_coherent:
  assumes "cls x = cls y" and "type_lookup w (cls x) v_eq_attrs = None"
    and "fst (py_repr E w x) = Inr s" and "fst (py_repr E w y) = Inr t"
    and "hash_coherent E w x" and "hash_coherent E w y"
  shows "fst (py_eq E w x y) = Inr (s = t)
    \<and> fst (py_hash E w x) = Inr (str_hash E s)
    \<and> fst (py_hash E w y) = Inr (str_hash E t)
    \<and> (s = t \<longrightarrow> fst (py_hash E w x) = fst (py_hash E w y))
    \<and> (inj_on (str_hash E) {s, t} \<longrightarrow> fst (py_hash E w x) = fst (py_hash E w y) \<longrightarrow> s = t)"
proof -
  have e: "fst (py_eq E w x y) = Inr (s = t)"
    by (rule py_eq_by_repr [OF assms(1-4)])
  have hx: "fst (py_hash E w x) = Inr (str_hash E s)"
    by (rule py_hash_coherent [OF assms(5,3)])
  have hy: "fst (py_hash E w y) = Inr (str_hash E t)"
    by (rule py_hash_coherent [OF assms(6,4)])
  show ?thesis
    using e hx hy by (auto simp: inj_on_def)
qed

theorem eq_repr_hash_coherent_witness:
  "fst (py_eq example_env example_world (hashed_Point 1) (Point_object 2 (PInt 1) (PInt 2)))
     = Inr True
   \<and> fst (py_repr example_env example_world (hashed_Point 1))
     = Inr (''Point'' @ [CHR 0x0A] @ ''  a = 1'' @ [CHR 0x0A] @ ''  b = 2'')
   \<and> fst (py_repr example_env example_world (Point_object 2 (PInt 1) (PInt 2)))
     = Inr (''Point'' @ [CHR 0x0A] @ ''  a = 1'' @ [CHR 0x0A] @ ''  b = 2'')
   \<and> fst (py_hash example_env example_world (hashed_Point 1))
     = fst (py_hash example_env example_world (Point_object 2 (PInt 1) (PInt 2)))
   \<and> fst (py_eq example_env example_world (hashed_Point 1) (Point_object 2 (PInt 1) (PInt 3)))
     = Inr False"
proof -
  let ?s = "''Point'' @ [CHR 0x0A] @ ''  a = 1'' @ [CHR 0x0A] @ ''  b = 2''"
  let ?u = "''Point'' @ [CHR 0x0A] @ ''  a = 1'' @ [CHR 0x0A] @ ''  b = 3''"
  have r: "fst (py_repr example_env example_world (Point_object a (PInt 1) (PInt 2))) = Inr ?s"
      "fst (py_repr example_env example_world (Point_object a (PInt 1) (PInt 3))) = Inr ?u"
      "fst (py_repr example_env example_world (hashed_Point a)) = Inr ?s" for a
    by (simp_all add: hashed_Point_eq py_repr_def getattr_repr_def repr_body_def
        example_lookups Point_object_def example_env_def example_build_string_def render_def)
  have c: "cls (hashed_Point 1) = cls (Point_object 2 x y)"
    "type_lookup example_world (cls (hashed_Point 1)) v_eq_attrs = None" for x y
    by (simp_all add: hashed_Point_eq Point_object_def example_lookups)
  have "dict (hashed_Point 1) ''_hash'' = Some (PInt (example_hash ?s))"
    by (simp add: hashed_Point_eq)
  moreover have "str_hash example_env = example_hash"
    by (simp add: example_env_def)
  ultimately have k1: "hash_coherent example_env example_world (hashed_Point 1)"
    by (simp add: hash_coherent_def r(3))
  have k2: "hash_coherent example_env example_world (Point_object 2 x y)" for x y
    by (simp add: hash_coherent_def Point_object_def)
  note k = k1 k2
  show ?thesis
    using eq_repr_hash_coherent [OF c(1) [of "PInt 1" "PInt 2"] c(2) r(3) [of 1] r(1) [of 2]
          k(1) k(2) [of "PInt 1" "PInt 2"]]
      eq_repr_hash_coherent [OF c(1) [of "PInt 1" "PInt 3"] c(2) r(3) [of 1] r(2) [of 2]
          k(1) k(2) [of "PInt 1" "PInt 3"]]
    by (simp add: r)
qed

text \<open>
  The claim as it stands fails twice.  Two points \<open>Point(1, 2)\<close>, hashed while the
  representations were enabled, keep their equal cached hashes after
  \<open>FancyRepr.disable()\<close>, where their representations differ and they are unequal.  And
  two unequal points with the representations \<open>a = Aa\<close> and \<open>a = BB\<close> have the same hash
  under the hash of the examples.
\<close>

theorem eq_repr_hash_counterexample:
  "fst (py_eq example_env disabled_world (hashed_Point 1) (hashed_Point 2)) = Inr False
   \<and> fst (py_repr example_env disabled_world (hashed_Point 1)) = Inr ''<Point object at 1>''
   \<and> fst (py_repr example_env disabled_world (hashed_Point 2)) = Inr ''<Point object at 2>''
   \<and> fst (py_hash example_env disabled_world (hashed_Point 1))
       = Inr (example_hash (''Point'' @ [CHR 0x0A] @ ''  a = 1'' @ [CHR 0x0A] @ ''  b = 2''))
   \<and> fst (py_hash example_env disabled_world (hashed_Point 2))
       = Inr (example_hash (''Point'' @ [CHR 0x0A] @ ''  a = 1'' @ [CHR 0x0A] @ ''  b = 2''))
   \<and> fst (py_eq example_env example_world (Point_object 5 (PStr ''Aa'') (PInt 2))
        (Point_object 6 (PStr ''BB'') (PInt 2))) = Inr False
   \<and> fst (py_hash example_env example_world (Point_object 5 (PStr ''Aa'') (PInt 2)))
       = Inr (example_hash (''Point'' @ [CHR 0x0A] @ ''  a = Aa'' @ [CHR 0x0A] @ ''  b = 2''))
   \<and> fst (py_hash example_env example_world (Point_object 6 (PStr ''BB'') (PInt 2)))
       = Inr (example_hash (''Point'' @ [CHR 0x0A] @ ''  a = BB'' @ [CHR 0x0A] @ ''  b = 2''))
   \<and> example_hash (''Point'' @ [CHR 0x0A] @ ''  a = Aa'' @ [CHR 0x0A] @ ''  b = 2'')
       = example_hash (''Point'' @ [CHR 0x0A] @ ''  a = BB'' @ [CHR 0x0A] @ ''  b = 2'')"
proof -
  have r: "fst (py_repr example_env disabled_world (hashed_Point 1)) = Inr ''<Point object at 1>''"
    "fst (py_repr example_env disabled_world (hashed_Point 2)) = Inr ''<Point object at 2>''"
    by (simp_all add: hashed_Point_eq py_repr_def repr_body_def disabled_lookups
        Point_object_def example_env_def example_object_repr_def)
  have c: "cls (hashed_Point 1) = cls (hashed_Point 2)"
    "type_lookup disabled_world (cls (hashed_Point 1)) v_eq_attrs = None"
    by (simp_all add: hashed_Point_eq Point_object_def disabled_lookups)
  have e: "fst (py_eq example_env disabled_world (hashed_Point 1) (hashed_Point 2)) = Inr False"
    using py_eq_by_repr [OF c r] by simp
  have h: "fst (py_hash example_env disabled_world (hashed_Point a))
       = Inr (example_hash (''Point'' @ [CHR 0x0A] @ ''  a = 1'' @ [CHR 0x0A] @ ''  b = 2''))" for a
    by (simp add: hashed_Point_eq py_hash_def getattr_hash_def)
  have r': "fst (py_repr example_env example_world (Point_object 5 (PStr ''Aa'') (PInt 2)))
       = Inr (''Point'' @ [CHR 0x0A] @ ''  a = Aa'' @ [CHR 0x0A] @ ''  b = 2'')"
    "fst (py_repr example_env example_world (Point_object 6 (PStr ''BB'') (PInt 2)))
       = Inr (''Point'' @ [CHR 0x0A] @ ''  a = BB'' @ [CHR 0x0A] @ ''  b = 2'')"
    by (simp_all add: py_repr_def getattr_repr_def repr_body_def example_lookups
        Point_object_def example_env_def example_build_string_def render_def)
  have c': "cls (Point_object 5 (PStr ''Aa'') (PInt 2)) = cls (Point_object 6 (PStr ''BB'') (PInt 2))"
    "type_lookup example_world (cls (Point_object 5 (PStr ''Aa'') (PInt 2))) v_eq_attrs = None"
    by (simp_all add: Point_object_def example_lookups)
  have e': "fst (py_eq example_env example_world (Point_object 5 (PStr ''Aa'') (PInt 2))
        (Point_object 6 (PStr ''BB'') (PInt 2))) = Inr False"
    using py_eq_by_repr [OF c' r'] by simp
  have s: "str_hash example_env = example_hash"
    by (simp add: example_env_def)
  have h': "fst (py_hash example_env example_world (Point_object 5 (PStr ''Aa'') (PInt 2)))
       = Inr (example_hash (''Point'' @ [CHR 0x0A] @ ''  a = Aa'' @ [CHR 0x0A] @ ''  b = 2''))"
    "fst (py_hash example_env example_world (Point_object 6 (PStr ''BB'') (PInt 2)))
       = Inr (example_hash (''Point'' @ [CHR 0x0A] @ ''  a = BB'' @ [CHR 0x0A] @ ''  b = 2''))"
    using py_hash_uncached [OF _ r'(1)] py_hash_uncached [OF _ r'(2)]
    by (simp_all add: Point_object_def s)
  show ?thesis using e r h e' h' example_hash_Aa_BB by blast
qed

lemma enter_instance_cls [simp]: "cls (enter_instance U x) = cls x"
  by (simp add: enter_instance_def)

lemma enter_instance_ident [simp]: "ident (enter_instance U x) = ident x"
  by (simp add: enter_instance_def)

text \<open>
  Claim C10.  Let \<open>x\<close> be an instance with a cached hash, the hash of some string \<open>s\<close>
  (a value that \<open>hash(repr(x))\<close> once stored); \<open>x\<close> may be at rest or inside a manager,
  hashed while the representations were enabled or disabled.  After
  \<open>FancyRepr.disable()\<close> and after \<open>FancyRepr.enable()\<close>, \<open>hash(x)\<close> returns that cached
  value and leaves the instance, cache included, as it is.  If \<open>x\<close> gets its
  representation from a registered class \<open>c\<close>, then after \<open>disable()\<close> \<open>repr(x)\<close> is
  \<open>object.__repr__(x)\<close>, so \<open>hash(x)\<close> is the hash of \<open>s\<close> and \<open>hash(repr(x))\<close> that of the
  default.  And if a manager with \<open>mutate\<close> set then enters on \<open>x\<close> at rest and exits,
  the body having left \<open>x\<close> a dictionary \<open>d\<close> in which \<open>_repr\<close> is still cached, the exit
  deletes the cached hash and locks \<open>x\<close>, and the next \<open>hash(x)\<close> is the hash of the
  representation in force.
\<close>

theorem cached_hash_survives_toggle:
  assumes "dict x ''_hash'' = Some (PInt (str_hash E s))"
  shows "py_hash E (FancyRepr_disable w) x = (Inr (str_hash E s), x)
    \<and> py_hash E (FancyRepr_enable w) x = (Inr (str_hash E s), x)
    \<and> (classes w (cls x) = Some k' \<and> mro k' = pre @ c # rest
         \<and> (\<forall>d\<in>set pre. map_of (fr_classes w) d = None
               \<and> (\<forall>kd. classes w d = Some kd \<longrightarrow> v_repr kd = None \<and> v_cached_repr kd = None))
         \<and> classes w c = Some k \<and> map_of (fr_classes w) c = Some f
       \<longrightarrow>
         fst (py_repr E (FancyRepr_disable w) x) = Inr (object_repr E (cls x) (ident x))
         \<and> (check_instance U \<and> u_mutate U \<and> u_lock_id (object_lock x) = None
              \<and> d ''_repr'' \<noteq> None
            \<longrightarrow>
              dict (exit_instance U ((enter_instance U x)\<lparr>dict := d\<rparr>)) ''_hash'' = None
              \<and> locked (object_lock (exit_instance U ((enter_instance U x)\<lparr>dict := d\<rparr>)))
              \<and> fst (py_hash E (FancyRepr_disable w)
                     (exit_instance U ((enter_instance U x)\<lparr>dict := d\<rparr>)))
                  = Inr (str_hash E (object_repr E (cls x) (ident x)))))"
proof -
  have frame: "py_hash E w' x = (Inr (str_hash E s), x)" for w'
    using assms by (rule py_hash_cached)
  have rest: "fst (py_repr E (FancyRepr_disable w) x) = Inr (object_repr E (cls x) (ident x))
         \<and> (check_instance U \<and> u_mutate U \<and> u_lock_id (object_lock x) = None
              \<and> d ''_repr'' \<noteq> None
            \<longrightarrow>
              dict (exit_instance U ((enter_instance U x)\<lparr>dict := d\<rparr>)) ''_hash'' = None
              \<and> locked (object_lock (exit_instance U ((enter_instance U x)\<lparr>dict := d\<rparr>)))
              \<and> fst (py_hash E (FancyRepr_disable w)
                     (exit_instance U ((enter_instance U x)\<lparr>dict := d\<rparr>)))
                  = Inr (str_hash E (object_repr E (cls x) (ident x))))"
    if reg: "classes w (cls x) = Some k'" "mro k' = pre @ c # rest"
      "\<forall>d\<in>set pre. map_of (fr_classes w) d = None
           \<and> (\<forall>kd. classes w d = Some kd \<longrightarrow> v_repr kd = None \<and> v_cached_repr kd = None)"
      "classes w c = Some k" "map_of (fr_classes w) c = Some f"
  proof -
    have cr: "class_repr (FancyRepr_disable w) (cls x) = Object_repr"
      by (rule class_repr_disable [OF reg])
    have r: "py_repr E (FancyRepr_disable w) y = (Inr (object_repr E (cls x) (ident x)), y)"
      if "cls y = cls x" "ident y = ident x" for y
      using cr that by (simp add: py_repr_def repr_body_def)
    have ex: "dict (exit_instance U ((enter_instance U x)\<lparr>dict := d\<rparr>)) ''_hash'' = None
              \<and> locked (object_lock (exit_instance U ((enter_instance U x)\<lparr>dict := d\<rparr>)))
              \<and> fst (py_hash E (FancyRepr_disable w)
                     (exit_instance U ((enter_instance U x)\<lparr>dict := d\<rparr>)))
                  = Inr (str_hash E (object_repr E (cls x) (ident x)))"
      if sc: "check_instance U" "u_mutate U" "u_lock_id (object_lock x) = None"
        "d ''_repr'' \<noteq> None"
    proof -
      let ?z = "(enter_instance U x)\<lparr>dict := d\<rparr>"
      have own: "u_lock_id (object_lock ?z) = Some (u_id U)"
        using enter_instance_inactive [OF sc(1,3)] by simp
      have dz: "dict ?z ''_repr'' \<noteq> None" using sc(4) by simp
      have cl: "dict (exit_instance U ?z) ''_repr'' = None
         \<and> dict (exit_instance U ?z) ''_hash'' = None
         \<and> locked (object_lock (exit_instance U ?z))"
        by (rule exit_clears_cached_repr [OF sc(1) own sc(2) dz])
      have n: "dict (exit_instance U ?z) ''_hash'' = None" using cl by simp
      have h: "fst (py_hash E (FancyRepr_disable w) (exit_instance U ?z))
          = Inr (str_hash E (object_repr E (cls x) (ident x)))"
        by (rule py_hash_uncached [OF n]) (simp add: r)
      show ?thesis using cl h by simp
    qed
    show ?thesis using r [of x] ex by simp
  qed
  show ?thesis using frame rest by blast
qed

theorem cached_hash_survives_toggle_witness:
  "locked (object_lock (hashed_Point 1))
   \<and> py_hash example_env (FancyRepr_disable example_world) (hashed_Point 1)
     = (Inr (example_hash (''Point'' @ [CHR 0x0A] @ ''  a = 1'' @ [CHR 0x0A] @ ''  b = 2'')),
        hashed_Point 1)
   \<and> py_hash example_env (FancyRepr_enable example_world) (hashed_Point 1)
     = (Inr (example_hash (''Point'' @ [CHR 0x0A] @ ''  a = 1'' @ [CHR 0x0A] @ ''  b = 2'')),
        hashed_Point 1)
   \<and> fst (py_repr example_env (FancyRepr_disable example_world) (hashed_Point 1))
     = Inr ''<Point object at 1>''
   \<and> example_hash (''Point'' @ [CHR 0x0A] @ ''  a = 1'' @ [CHR 0x0A] @ ''  b = 2'')
     \<noteq> example_hash ''<Point object at 1>''
   \<and> fst (py_hash example_env (FancyRepr_disable example_world)
        (exit_instance outer_manager
           ((enter_instance outer_manager (hashed_Point 1))
              \<lparr>dict := (dict (hashed_Point 1))(''a'' \<mapsto> PInt 5)\<rparr>)))
     = Inr (example_hash ''<Point object at 1>'')
   \<and> py_hash example_env (FancyRepr_enable disabled_world)
        (snd (py_hash example_env disabled_world (Point_object 1 (PInt 1) (PInt 2))))
     = (Inr (example_hash ''<Point object at 1>''),
        snd (py_hash example_env disabled_world (Point_object 1 (PInt 1) (PInt 2))))"
proof -
  let ?x = "hashed_Point 1"
  let ?S = "''Point'' @ [CHR 0x0A] @ ''  a = 1'' @ [CHR 0x0A] @ ''  b = 2''"
  let ?y = "snd (py_hash example_env disabled_world (Point_object 1 (PInt 1) (PInt 2)))"
  have s: "str_hash example_env = example_hash"
    by (simp add: example_env_def)
  have l: "locked (object_lock ?x)" "u_lock_id (object_lock ?x) = None"
    by (simp_all add: hashed_Point_eq Point_object_def locked_def)
  have hx: "dict ?x ''_hash'' = Some (PInt (str_hash example_env ?S))"
    by (simp add: hashed_Point_eq s)
  have yeq: "?y = (Point_object 1 (PInt 1) (PInt 2))
      \<lparr>dict := [''a'' \<mapsto> PInt 1, ''b'' \<mapsto> PInt 2,
                 ''_hash'' \<mapsto> PInt (example_hash ''<Point object at 1>'')]\<rparr>"
    by (simp add: py_hash_def getattr_hash_def py_repr_def repr_body_def disabled_lookups
        Point_object_def example_env_def example_object_repr_def)
  have hy: "dict ?y ''_hash'' = Some (PInt (str_hash example_env ''<Point object at 1>''))"
    by (simp add: yeq s del: One_nat_def)
  have 1: "classes example_world (cls ?x)
      = Some \<lparr>mro = [''Point'', ''CCLAutoreprObject'', ''CCLObject''], v_repr = None,
         v_cached_repr = None, v_repr_attrs = Some [''a'', ''b''], v_eq_attrs = None,
         v_init = Some (Wrapper Point_init ''self'' False), v_update_parameters = None\<rparr>"
    by (simp add: example_world_eq hashed_Point_eq Point_object_def)
  have 3: "\<forall>d\<in>set [''Point'']. map_of (fr_classes example_world) d = None
      \<and> (\<forall>kd. classes example_world d = Some kd \<longrightarrow> v_repr kd = None \<and> v_cached_repr kd = None)"
    by (simp add: example_world_eq)
  have 4: "classes example_world ''CCLAutoreprObject''
      = Some \<lparr>mro = [''CCLAutoreprObject'', ''CCLObject''],
         v_repr = Some Ccl_repr, v_cached_repr = Some CCLAutoreprObject_repr,
         v_repr_attrs = None, v_eq_attrs = None, v_init = None, v_update_parameters = None\<rparr>"
    by (simp add: example_world_eq)
  have 5: "map_of (fr_classes example_world) ''CCLAutoreprObject'' = Some CCLAutoreprObject_repr"
    by (simp add: example_world_eq)
  have U: "check_instance outer_manager" "u_mutate outer_manager"
    by (simp_all add: outer_manager_def UnlockInstance_init_def isinstance_CCLObject_def
        Point_heap_eq)
  have d: "((dict ?x)(''a'' \<mapsto> PInt 5)) ''_repr'' \<noteq> None"
    by (simp add: hashed_Point_eq)
  have o: "object_repr example_env (cls ?x) (ident ?x) = ''<Point object at 1>''"
    by (simp add: example_env_def example_object_repr_def hashed_Point_eq Point_object_def)
  have n: "example_hash ?S \<noteq> example_hash ''<Point object at 1>''"
    by (simp add: example_hash_def)
  note t = cached_hash_survives_toggle [OF hx, where w = example_world and k' = "\<lparr>mro = [''Point'', ''CCLAutoreprObject'', ''CCLObject''], v_repr = None,
         v_cached_repr = None, v_repr_attrs = Some [''a'', ''b''], v_eq_attrs = None,
         v_init = Some (Wrapper Point_init ''self'' False), v_update_parameters = None\<rparr>"
        and pre = "[''Point'']" and c = "''CCLAutoreprObject''" and rest = "[''CCLObject'']"
        and k = "\<lparr>mro = [''CCLAutoreprObject'', ''CCLObject''],
         v_repr = Some Ccl_repr, v_cached_repr = Some CCLAutoreprObject_repr,
         v_repr_attrs = None, v_eq_attrs = None, v_init = None, v_update_parameters = None\<rparr>"
        and f = CCLAutoreprObject_repr and U = outer_manager
        and d = "(dict ?x)(''a'' \<mapsto> PInt 5)"]
  have a: "py_hash example_env (FancyRepr_disable example_world) ?x = (Inr (example_hash ?S), ?x)"
    "py_hash example_env (FancyRepr_enable example_world) ?x = (Inr (example_hash ?S), ?x)"
    using t by (simp_all add: s)
  have b: "fst (py_repr example_env (FancyRepr_disable example_world) ?x)
      = Inr ''<Point object at 1>''"
    "fst (py_hash example_env (FancyRepr_disable example_world)
        (exit_instance outer_manager
           ((enter_instance outer_manager ?x)\<lparr>dict := (dict ?x)(''a'' \<mapsto> PInt 5)\<rparr>)))
     = Inr (example_hash ''<Point object at 1>'')"
    using t 1 3 4 5 U l(2) d by (simp_all add: o s del: One_nat_def)
  have c: "py_hash example_env (FancyRepr_enable disabled_world) ?y
      = (Inr (example_hash ''<Point object at 1>''), ?y)"
    using cached_hash_survives_toggle [OF hy, where w = disabled_world] by (simp add: s)
  show ?thesis using l(1) a b n c by blast
qed

subsection \<open>The decorator\<close>

text \<open>
  Claim C7.  For a function \<open>f\<close> and a name \<open>n\<close> given to \<open>unlock_instance\<close>, directly or
  through the decorator with parentheses: when \<open>n\<close> is not a parameter of \<open>f\<close> the
  decoration raises \<open>NameError\<close> and yields no wrapper; when it is, the decoration yields
  the wrapper over \<open>f\<close> and \<open>n\<close>.  Without a name, a function with at least one parameter
  is wrapped over its first parameter.
\<close>

theorem unlock_instance_name_check:
  "(n \<notin> set (map p_name (f_signature f)) \<longrightarrow>
      unlock_instance (Some f) (Some n) mutate = Inl NameError
      \<and> decorate (unlock_instance None (Some n) mutate) f = Inl NameError)
   \<and> (n \<in> set (map p_name (f_signature f)) \<longrightarrow>
      unlock_instance (Some f) (Some n) mutate = Inr (Decorated (Wrapper f n mutate))
      \<and> decorate (unlock_instance None (Some n) mutate) f = Inr (Decorated (Wrapper f n mutate)))
   \<and> (f_signature f \<noteq> [] \<longrightarrow>
      unlock_instance (Some f) None mutate
        = Inr (Decorated (Wrapper f (p_name (hd (f_signature f))) mutate))
      \<and> decorate (unlock_instance None None mutate) f
        = Inr (Decorated (Wrapper f (p_name (hd (f_signature f))) mutate)))"
  by (cases "f_signature f") (auto simp: unlock_instance_def decorate_def)

theorem unlock_instance_name_check_witness:
  "''hello'' \<notin> set (map p_name (f_signature func2))
   \<and> decorate (unlock_instance None (Some ''hello'') True) func2 = Inl NameError
   \<and> ''pk'' \<in> set (map p_name (f_signature func2))
   \<and> decorate (unlock_instance None (Some ''pk'') True) func2
       = Inr (Decorated (Wrapper func2 ''pk'' True))
   \<and> f_signature func2 \<noteq> []
   \<and> unlock_instance (Some func2) None True = Inr (Decorated (Wrapper func2 ''item'' True))"
  using unlock_instance_name_check [of "''hello''" func2 True]
    unlock_instance_name_check [of "''pk''" func2 True]
  by (simp add: func2_def)

text \<open>
  The wrapper around a target that is no \<open>CCLObject\<close>, or that has an active manager,
  enters without touching the heap.
\<close>

lemma on_target_foreign:
  "\<not> check_instance U \<Longrightarrow> on_target U (enter_instance U) h = h \<and> on_target U (exit_instance U) h = h"
  by (auto simp: on_target_def enter_instance_def exit_instance_def split: pyval.splits option.splits)

lemma enter_not_CCLObject:
  "\<not> isinstance_CCLObject h target \<Longrightarrow>
   UnlockInstance_enter (UnlockInstance_init h target mutate n) h' = h'
   \<and> UnlockInstance_exit (UnlockInstance_init h target mutate n) h' = h'"
  using on_target_foreign [of "UnlockInstance_init h target mutate n" h']
  by (simp add: UnlockInstance_enter_def UnlockInstance_exit_def UnlockInstance_init_def)

lemma enter_active_target:
  "h a = Some x \<Longrightarrow> active (object_lock x) \<Longrightarrow>
   UnlockInstance_enter (UnlockInstance_init h (PRef a) mutate n) h = h"
  by (auto simp: UnlockInstance_enter_def UnlockInstance_init_def on_target_def enter_instance_def)

lemma set_a_binds:
  "Signature_bind (f_signature set_a) [PRef 1, PInt 5] []
     = Inr [''self'' \<mapsto> PRef 1, ''value'' \<mapsto> PInt 5]"
  by (simp add: set_a_def Signature_bind_def)

text \<open>
  Claim C9, as amended.  Let the arguments bind to the signature of \<open>f\<close> and give the
  named parameter a value, the target.  Then the wrapper returns (or raises) exactly
  what \<open>f\<close> returns (or raises) on these arguments when it runs on the heap that
  \<open>__enter__\<close> leaves, and \<open>__exit__\<close> then runs on the heap that \<open>f\<close> leaves.  When the
  target is no \<open>CCLObject\<close> the wrapped call is the unwrapped call; when the target
  already has an active manager, the two return the same.
\<close>

theorem wrapper_result:
  assumes "Signature_bind (f_signature f) args kw = Inr arguments"
    and "arguments name = Some target"
    and "U = UnlockInstance_init h target mutate new_id"
  shows "wrapper f name mutate new_id args kw h
      = (fst (f_body f args kw (UnlockInstance_enter U h)),
         UnlockInstance_exit U (snd (f_body f args kw (UnlockInstance_enter U h))))
    \<and> (\<not> isinstance_CCLObject h target \<longrightarrow>
         wrapper f name mutate new_id args kw h = f_body f args kw h)
    \<and> (\<forall>a x. target = PRef a \<and> h a = Some x \<and> active (object_lock x) \<longrightarrow>
         fst (wrapper f name mutate new_id args kw h) = fst (f_body f args kw h))"
proof -
  have w: "wrapper f name mutate new_id args kw h
      = (fst (f_body f args kw (UnlockInstance_enter U h)),
         UnlockInstance_exit U (snd (f_body f args kw (UnlockInstance_enter U h))))"
    using assms by (simp add: wrapper_def Let_def split: prod.splits)
  have n: "wrapper f name mutate new_id args kw h = f_body f args kw h"
    if "\<not> isinstance_CCLObject h target"
    using w enter_not_CCLObject [OF that] assms(3) by simp
  have a: "fst (wrapper f name mutate new_id args kw h) = fst (f_body f args kw h)"
    if "target = PRef a" "h a = Some x" "active (object_lock x)" for a x
    using w enter_active_target [of h a x mutate new_id] assms(3) that by simp
  show ?thesis using w n a by blast
qed

theorem wrapper_result_witness:
  "wrapper set_a ''self'' True 9 [PRef 1, PInt 5] [] Point_heap
     = (fst (f_body set_a [PRef 1, PInt 5] [] (UnlockInstance_enter (thread_manager 9) Point_heap)),
        UnlockInstance_exit (thread_manager 9)
          (snd (f_body set_a [PRef 1, PInt 5] [] (UnlockInstance_enter (thread_manager 9) Point_heap))))
   \<and> isinstance_CCLObject Point_heap (PRef 1)
   \<and> fst (f_body set_a [PRef 1, PInt 5] [] (UnlockInstance_enter (thread_manager 9) Point_heap))
       = Inr PNone
   \<and> wrapper set_a ''value'' True 9 [PRef 1, PInt 5] [] Point_heap
       = f_body set_a [PRef 1, PInt 5] [] Point_heap
   \<and> fst (wrapper set_a ''self'' True 9 [PRef 1, PInt 5] [] entered_heap)
       = fst (f_body set_a [PRef 1, PInt 5] [] entered_heap)"
proof -
  have i: "isinstance_CCLObject Point_heap (PRef 1)" "\<not> isinstance_CCLObject Point_heap (PInt 5)"
    by (simp_all add: isinstance_CCLObject_def Point_heap_eq)
  have e: "entered_heap 1 = Some ((Point_object 1 (PInt 1) (PInt 2))
       \<lparr>object_lock := \<lparr>u_locked = False, u_lock_id = Some 7\<rparr>\<rparr>)"
    by (simp add: entered_heap_def outer_manager_def Point_heap_eq run_defs Point_object_def)
  have r: "fst (f_body set_a [PRef 1, PInt 5] [] (UnlockInstance_enter (thread_manager 9) Point_heap))
       = Inr PNone"
    by (simp add: thread_manager_def set_a_def set_a_body_def Signature_bind_def Point_heap_eq
        heap_setattr_def setattr_def locked_def Point_object_def UnlockInstance_init_def
        isinstance_CCLObject_def UnlockInstance_enter_def on_target_def enter_instance_def
        active_def unlock_def Let_def)
  have a: "active (object_lock ((Point_object 1 (PInt 1) (PInt 2))
       \<lparr>object_lock := \<lparr>u_locked = False, u_lock_id = Some 7\<rparr>\<rparr>))"
    by (simp add: active_def)
  have l: "[''self'' \<mapsto> PRef 1, ''value'' \<mapsto> PInt 5] ''value'' = Some (PInt 5)"
    "[''self'' \<mapsto> PRef 1, ''value'' \<mapsto> PInt 5] ''self'' = Some (PRef 1)"
    by simp_all
  have 1: "wrapper set_a ''self'' True 9 [PRef 1, PInt 5] [] Point_heap
     = (fst (f_body set_a [PRef 1, PInt 5] [] (UnlockInstance_enter (thread_manager 9) Point_heap)),
        UnlockInstance_exit (thread_manager 9)
          (snd (f_body set_a [PRef 1, PInt 5] [] (UnlockInstance_enter (thread_manager 9) Point_heap))))"
    using wrapper_result [OF set_a_binds l(2), where U = "thread_manager 9" and h = Point_heap
        and mutate = True and new_id = 9]
    by (simp add: thread_manager_def del: One_nat_def)
  have 2: "wrapper set_a ''value'' True 9 [PRef 1, PInt 5] [] Point_heap
       = f_body set_a [PRef 1, PInt 5] [] Point_heap"
    using wrapper_result [OF set_a_binds l(1) refl, where h = Point_heap and mutate = True and new_id = 9] i(2)
    by blast
  have 3: "fst (wrapper set_a ''self'' True 9 [PRef 1, PInt 5] [] entered_heap)
       = fst (f_body set_a [PRef 1, PInt 5] [] entered_heap)"
    using wrapper_result [OF set_a_binds l(2) refl, where h = entered_heap and mutate = True and new_id = 9] e a
    by blast
  show ?thesis
    using 1 2 3 i(1) r by blast
qed

text \<open>
  The claim as it stands fails on a function that writes its target: on a locked point,
  \<open>set_a(p, 5)\<close> raises \<open>AttributeError\<close>, and the wrapped \<open>set_a(p, 5)\<close> returns \<open>None\<close>,
  with the field written and the point locked again.
\<close>

theorem wrapper_changes_result:
  "\<not> isl (Signature_bind (f_signature set_a) [PRef 1, PInt 5] [])
   \<and> f_body set_a [PRef 1, PInt 5] [] Point_heap = (Inl AttributeError, Point_heap)
   \<and> fst (wrapper set_a ''self'' True 9 [PRef 1, PInt 5] [] Point_heap) = Inr PNone
   \<and> map_option (\<lambda>x. (dict x ''a'', locked (object_lock x)))
        (snd (wrapper set_a ''self'' True 9 [PRef 1, PInt 5] [] Point_heap) 1)
       = Some (Some (PInt 5), True)"
proof -
  have b: "\<not> isl (Signature_bind (f_signature set_a) [PRef 1, PInt 5] [])"
    by (simp add: set_a_binds del: One_nat_def)
  have u: "f_body set_a [PRef 1, PInt 5] [] Point_heap = (Inl AttributeError, Point_heap)"
    by (simp add: set_a_def set_a_body_def Signature_bind_def Point_heap_eq heap_setattr_def
        setattr_def locked_def Point_object_def)
  have w: "wrapper set_a ''self'' True 9 [PRef 1, PInt 5] [] Point_heap
      = (Inr PNone, [1 \<mapsto> (Point_object 1 (PInt 1) (PInt 2))\<lparr>dict := [''a'' \<mapsto> PInt 5, ''b'' \<mapsto> PInt 2]\<rparr>])"
    apply (simp add: wrapper_def set_a_def set_a_body_def Signature_bind_def Point_heap_eq heap_setattr_def
        setattr_def locked_def Point_object_def UnlockInstance_init_def isinstance_CCLObject_def
        UnlockInstance_enter_def UnlockInstance_exit_def on_target_def enter_instance_def
        exit_instance_def active_def unlock_def lock_def reset_repr_def delattr_def Let_def)
    apply (rule ext)
    apply (simp add: fun_upd_twist)
    done
  show ?thesis using b u by (simp add: w locked_def Point_object_def del: One_nat_def)
qed

text \<open>
  Left out of the amended claim: arguments that bind and leave the named parameter to
  its default.  \<open>bound.arguments\<close> has no entry for it, and the wrapper raises \<open>KeyError\<close>
  where the function returns.  Arguments that do not bind raise \<open>TypeError\<close>, as in the
  tests of the module.
\<close>

lemma wrapper_omitted_default:
  "Signature_bind (f_signature func2) [PInt 1, PInt 2] [(''a2'', PInt 3)]
     = Inr [''item'' \<mapsto> PInt 1, ''pk'' \<mapsto> PInt 2, ''a2'' \<mapsto> PInt 3]
   \<and> wrapper func2 ''a0'' True 9 [PInt 1, PInt 2] [(''a2'', PInt 3)] h = (Inl KeyError, h)
   \<and> f_body func2 [PInt 1, PInt 2] [(''a2'', PInt 3)] h = (Inr PNone, h)
   \<and> wrapper func2 ''pk'' True 9 [] [] h = (Inl TypeError, h)"
  by (simp add: wrapper_def func2_def Signature_bind_def)

subsection \<open>Two threads on one instance\<close>

lemma thread_manager_eq:
  "thread_manager n = \<lparr>u_instance = PRef 1, u_mutate = True, u_id = n, check_instance = True\<rparr>"
  by (simp add: thread_manager_def UnlockInstance_init_def isinstance_CCLObject_def Point_heap_eq)

lemmas thread_defs = two_threads_def step_def rlock_acquire_def observe_def thread_manager_eq
  Point_object_def active_def locked_def unlock_def lock_def reset_repr_def delattr_def Let_def

text \<open>
  Claim C8 (the code does not keep it).  The \<open>RLock\<close> that \<open>__enter__\<close> takes belongs to
  the manager, not to the instance, so two threads that each execute
  \<open>with UnlockInstance(p):\<close> take two different locks and neither waits.  With a thread
  switch between the test of \<open>object_lock.active\<close> and \<open>object_lock.unlock\<close>, both threads
  find no manager active; both then unlock, the second overwrites the identity of the
  first, and both are in their bodies.  When the second leaves, the instance is locked
  under the first, which is still in its body.  Without the switch, the second thread
  is the no-op of the claim; and a lock does hold off a second thread when both use the
  very same manager.
\<close>

theorem concurrent_enter_both_unlock:
  "observe (run (two_threads (Point_object 1 (PInt 1) (PInt 2)) (thread_manager 7) (thread_manager 8))
      [1, 1, 2, 2])
     = Some (True, None, [Some (Enter_unlock, False), Some (Enter_unlock, False)])
   \<and> observe (run (two_threads (Point_object 1 (PInt 1) (PInt 2)) (thread_manager 7) (thread_manager 8))
      [1, 1, 2, 2, 1, 2, 1, 2])
     = Some (False, Some 8, [Some (In_body, True), Some (In_body, True)])
   \<and> observe (run (two_threads (Point_object 1 (PInt 1) (PInt 2)) (thread_manager 7) (thread_manager 8))
      [1, 1, 2, 2, 1, 2, 1, 2, 2, 2, 2, 2, 2])
     = Some (True, None, [Some (In_body, True), Some (Finished, True)])
   \<and> observe (run (two_threads (Point_object 1 (PInt 1) (PInt 2)) (thread_manager 7) (thread_manager 8))
      [1, 1, 1, 1, 2, 2, 2])
     = Some (False, Some 7, [Some (In_body, True), Some (In_body, False)])
   \<and> observe (run (two_threads (Point_object 1 (PInt 1) (PInt 2)) (thread_manager 7) (thread_manager 7))
      [1, 2])
     = None"
  by (simp add: thread_defs)

end
